theory Spec2Isabelle
  imports Complex_Main "HOL-Library.Sublist"
begin

section \<open>JavaScript strings\<close>

text \<open>
  A JavaScript string is a sequence of UTF-16 code units; it is modelled by \<^typ>\<open>string\<close>,
  one \<^typ>\<open>char\<close> per code unit, so the model covers the code units below 256. None of the
  functions below looks at a code unit except to compare it with a separator, a fence
  character, a brace or the white space class.
\<close>

definition isWhiteSpace :: "char \<Rightarrow> bool" where
  \<comment> \<open>The class \<open>\s\<close> of a regular expression, which is also what \<open>trim\<close> strips: tab,
      line feed, vertical tab, form feed, carriage return, space and no-break space (the
      members above U+00FF are outside \<^typ>\<open>char\<close>).\<close>
  "isWhiteSpace c \<longleftrightarrow>
     c = CHR 0x09 \<or> c = CHR 0x0A \<or> c = CHR 0x0B \<or> c = CHR 0x0C \<or> c = CHR 0x0D \<or>
     c = CHR 0x20 \<or> c = CHR 0xA0"

definition trim :: "string \<Rightarrow> string" where
  \<comment> \<open>\<open>String.prototype.trim\<close>\<close>
  "trim s = rev (dropWhile isWhiteSpace (rev (dropWhile isWhiteSpace s)))"

fun split :: "char \<Rightarrow> string \<Rightarrow> string list" where
  \<comment> \<open>\<open>s.split(sep)\<close> for a separator of one code unit: one field more than there are
      separators, empty fields kept; the empty string gives one empty field.\<close>
  "split sep [] = [[]]"
| "split sep (c # cs) =
     (if c = sep then [] # split sep cs
      else (case split sep cs of
              [] \<Rightarrow> [[c]]
            | f # fs \<Rightarrow> (c # f) # fs))"

fun join :: "string \<Rightarrow> string list \<Rightarrow> string" where
  \<comment> \<open>\<open>fields.join(sep)\<close>\<close>
  "join sep [] = []"
| "join sep [f] = f"
| "join sep (f # g # fs) = f @ sep @ join sep (g # fs)"

definition substring0 :: "nat \<Rightarrow> string \<Rightarrow> string" where
  \<comment> \<open>\<open>s.substring(0, n)\<close>\<close>
  "substring0 n s = take n s"

definition digitChar :: "nat \<Rightarrow> char" where
  "digitChar d = (''0123456789'') ! d"

fun toString :: "nat \<Rightarrow> string" where
  \<comment> \<open>the decimal digits a template literal writes for a non-negative integer\<close>
  "toString n = (if n < 10 then [digitChar n] else toString (n div 10) @ [digitChar (n mod 10)])"

declare toString.simps [simp del]

section \<open>The slide document\<close>

text \<open>
  \<open>interface Slide { title: string; content: string[]; layout: ... }\<close>. The layout is
  declared as a union of three literals, but the value comes from parsed JSON and nothing
  checks it, so the model keeps it a string.
\<close>

record slide =
  title :: string
  content :: "string list"
  layout :: string

section \<open>gemini-client.ts: from the model's answer to slides\<close>

datatype js_error = Error string | SyntaxError | TypeError

text \<open>
  What \<open>JSON.parse\<close> returns. An object lists its properties, one binding for each name.
  Numbers are kept as integers; no function here reads one.
\<close>

datatype json =
    JNull
  | JBool bool
  | JNum int
  | JStr string
  | JArr "json list"
  | JObj "(string \<times> json) list"

definition fence :: string where
  \<comment> \<open>three backquotes\<close>
  "fence = [CHR 0x60, CHR 0x60, CHR 0x60]"

function stripFences :: "string \<Rightarrow> string" where
  \<comment> \<open>\<open>text.replace(/```json\s*|\s*```/g, '')\<close>: at each position the first alternative is
      tried, then the second; a match is removed and the scan goes on behind it, otherwise
      the code unit is kept.\<close>
  "stripFences [] = []"
| "stripFences (c # cs) =
     (if prefix (fence @ ''json'') (c # cs)
        then stripFences (dropWhile isWhiteSpace (drop 7 (c # cs)))
      else if prefix fence (dropWhile isWhiteSpace (c # cs))
        then stripFences (drop 3 (dropWhile isWhiteSpace (c # cs)))
      else c # stripFences cs)"
  by pat_completeness auto
termination
proof (relation "measure length")
  show "wf (measure length)" by simp
next
  fix c :: char and cs :: string
  assume "prefix (fence @ ''json'') (c # cs)"
  have "length (dropWhile isWhiteSpace (drop 7 (c # cs))) \<le> length (drop 7 (c # cs))"
    by (rule length_dropWhile_le)
  also have "\<dots> < length (c # cs)" by simp
  finally show "(dropWhile isWhiteSpace (drop 7 (c # cs)), c # cs) \<in> measure length"
    by simp
next
  fix c :: char and cs :: string
  assume "\<not> prefix (fence @ ''json'') (c # cs)"
    and "prefix fence (dropWhile isWhiteSpace (c # cs))"
  have "length (drop 3 (dropWhile isWhiteSpace (c # cs)))
          \<le> length (dropWhile isWhiteSpace (c # cs)) - 3" by simp
  moreover have "3 \<le> length (dropWhile isWhiteSpace (c # cs))"
    using \<open>prefix fence (dropWhile isWhiteSpace (c # cs))\<close>
    by (auto simp: fence_def dest: prefix_length_le)
  moreover have "length (dropWhile isWhiteSpace (c # cs)) \<le> length (c # cs)"
    by (rule length_dropWhile_le)
  ultimately show "(drop 3 (dropWhile isWhiteSpace (c # cs)), c # cs) \<in> measure length"
    by simp
next
  fix c :: char and cs :: string
  show "(cs, c # cs) \<in> measure length" by simp
qed

definition matchJson :: "string \<Rightarrow> string option" where
  \<comment> \<open>\<open>cleanedText.match(/\{[\s\S]*\}/)\<close>: from the first opening brace to the last closing
      brace behind it; \<open>None\<close> is \<open>null\<close>.\<close>
  "matchJson s =
     (case dropWhile (\<lambda>c. c \<noteq> CHR ''{'') s of
        [] \<Rightarrow> None
      | b # t \<Rightarrow>
          (case dropWhile (\<lambda>c. c \<noteq> CHR ''}'') (rev t) of
             [] \<Rightarrow> None
           | r \<Rightarrow> Some (b # rev r)))"

definition getProperty :: "json \<Rightarrow> string \<Rightarrow> js_error + json option" where
  \<comment> \<open>\<open>value.name\<close>: a \<open>TypeError\<close> on \<open>null\<close>, the property of an object, \<open>undefined\<close>
      (\<open>None\<close>) where the object has none and on every other parsed value\<close>
  "getProperty v name =
     (case v of
        JNull \<Rightarrow> Inl TypeError
      | JObj props \<Rightarrow> Inr (map_of props name)
      | _ \<Rightarrow> Inr None)"

definition parseResponseBody :: "(string \<Rightarrow> json option) \<Rightarrow> string \<Rightarrow> js_error + json list" where
  \<comment> \<open>the \<open>try\<close> block of \<open>parseResponse\<close>; \<open>jsonParse\<close> is \<open>JSON.parse\<close>, \<open>None\<close> where it
      throws. \<open>!parsed.slides || !Array.isArray(parsed.slides)\<close> lets arrays through only.\<close>
  "parseResponseBody jsonParse text =
     (let cleanedText = trim (stripFences text) in
      case matchJson cleanedText of
        None \<Rightarrow> Inl (Error ''No JSON found in response'')
      | Some jsonMatch \<Rightarrow>
          (case jsonParse jsonMatch of
             None \<Rightarrow> Inl SyntaxError
           | Some parsed \<Rightarrow>
               (case getProperty parsed ''slides'' of
                  Inl e \<Rightarrow> Inl e
                | Inr (Some (JArr slides)) \<Rightarrow> Inr slides
                | Inr _ \<Rightarrow> Inl (Error ''Invalid slides format''))))"

definition parseResponse :: "(string \<Rightarrow> json option) \<Rightarrow> string \<Rightarrow> js_error + json list" where
  \<comment> \<open>the \<open>catch\<close> replaces whatever was thrown\<close>
  "parseResponse jsonParse text =
     (case parseResponseBody jsonParse text of
        Inl e \<Rightarrow> Inl (Error ''Failed to parse AI response. Please try again.'')
      | Inr slides \<Rightarrow> Inr slides)"

definition promptHead :: string where
  \<open>promptHead = join ''\<newline>''
     [''You are an expert presentation designer. Create structured PowerPoint slides.'',
      '''',
      ''ALWAYS respond with VALID JSON in this exact format:'',
      ''{'',
      ''  "slides": ['',
      ''    {'',
      ''      "title": "Slide Title",'',
      ''      "content": ["Point 1", "Point 2", "Point 3"],'',
      ''      "layout": "TITLE_CONTENT"'',
      ''    }'',
      ''  ]'',
      ''}'',
      '''',
      ''LAYOUT TYPES:'',
      ''- "TITLE": Title slide (usually first slide)'',
      ''- "TITLE_CONTENT": Normal slide with title and bullet points'',
      ''- "SECTION_HEADER": Section divider slide'',
      '''',
      ''GUIDELINES:'',
      ''- Create 3-8 slides depending on the topic'',
      ''- Use clear, professional language'',
      ''- Each bullet point should be concise'',
      ''- Ensure logical flow between slides'',
      ''- Make titles engaging but professional'']\<close>

definition buildSystemPrompt :: "(slide list \<Rightarrow> string) \<Rightarrow> slide list \<Rightarrow> string" where
  \<comment> \<open>\<open>stringify\<close> is \<open>JSON.stringify(existingSlides, null, 2)\<close>\<close>
  "buildSystemPrompt stringify existingSlides =
     (if length existingSlides > 0
      then promptHead @ ''\<newline>\<newline>EXISTING SLIDES: '' @ stringify existingSlides
             @ ''\<newline>\<newline>MODIFY the existing slides based on the user's request. Keep what works, change what doesn't.''
      else promptHead @ ''\<newline>\<newline>CREATE a new presentation based on the user's request.'')"

definition generateSlides ::
  "(string \<Rightarrow> json option) \<Rightarrow> (slide list \<Rightarrow> string) \<Rightarrow> (string \<Rightarrow> js_error + string)
     \<Rightarrow> string \<Rightarrow> slide list \<Rightarrow> js_error + json list" where
  \<comment> \<open>\<open>generateContent\<close> is the upstream call with \<open>response.text()\<close>: the text, or what
      it threw. The call to \<open>parseResponse\<close> stands inside the same \<open>try\<close>, so the one
      \<open>catch\<close> replaces its error too.\<close>
  "generateSlides jsonParse stringify generateContent prompt existingSlides =
     (let systemPrompt = buildSystemPrompt stringify existingSlides;
          fullPrompt = systemPrompt @ ''\<newline>\<newline>USER REQUEST: '' @ prompt
      in case generateContent fullPrompt of
           Inl e \<Rightarrow> Inl (Error ''Failed to generate presentation content. Please try again.'')
         | Inr text \<Rightarrow>
             (case parseResponse jsonParse text of
                Inl e \<Rightarrow> Inl (Error ''Failed to generate presentation content. Please try again.'')
              | Inr slides \<Rightarrow> Inr slides))"

section \<open>chat-history.ts: the session store\<close>

type_synonym date = int

record chat_message =
  msgId :: string
  msgText :: string
  isUser :: bool
  timestamp :: date
  slides :: "slide list option"

record chat_session =
  sessionId :: string
  sessionTitle :: string
  messages :: "chat_message list"
  createdAt :: date
  updatedAt :: date

text \<open>
  What the service reads from its surroundings: whether \<open>window\<close> is defined,
  \<open>JSON.parse\<close> (\<open>None\<close> where it throws), the mapping
  \<open>.map(session => ({...session, createdAt: new Date(...), ...}))\<close> seen through the declared
  result type \<open>ChatSession[]\<close> (\<open>None\<close> where it throws, as on a value that is no array),
  \<open>JSON.stringify\<close>, the clock and \<open>generateId()\<close>. Within one call of an operation
  every \<open>new Date()\<close> reads the same time, and \<open>localStorage.getItem\<close> and
  \<open>setItem\<close> themselves are taken not to throw.
\<close>

record history_env =
  windowDefined :: bool
  parseJson :: "string \<Rightarrow> json option"
  reviveSessions :: "json \<Rightarrow> chat_session list option"
  stringifySessions :: "chat_session list \<Rightarrow> string"
  now :: date
  generateId :: string

text \<open>
  The state: the item of \<open>localStorage\<close> under \<open>STORAGE_KEY\<close> (\<open>None\<close> when there is
  none) and the field \<open>currentSessionId\<close> (\<open>None\<close> is \<open>null\<close>).
\<close>

record service =
  storage :: "string option"
  currentSessionId :: "string option"

definition isFalsy :: "string option \<Rightarrow> bool" where
  \<comment> \<open>\<open>!v\<close> for a value that is a string or \<open>null\<close>: the empty string is falsy too\<close>
  "isFalsy v \<longleftrightarrow> v = None \<or> v = Some []"

fun findIndex :: "('a \<Rightarrow> bool) \<Rightarrow> 'a list \<Rightarrow> nat option" where
  \<comment> \<open>\<open>Array.prototype.findIndex\<close>; \<open>None\<close> is \<open>-1\<close>\<close>
  "findIndex P [] = None"
| "findIndex P (x # xs) = (if P x then Some 0 else map_option Suc (findIndex P xs))"

text \<open>
  A call of \<open>console.error(label, error)\<close>.
\<close>

datatype console_entry = ConsoleError string js_error

definition getSessionsLogged ::
  "history_env \<Rightarrow> service \<Rightarrow> chat_session list \<times> console_entry list" where
  \<comment> \<open>the method \<open>getSessions\<close>: what it returns and what it writes to the console. The
      guard on \<open>window\<close> and the test \<open>stored ? ... : []\<close> return before anything is
      parsed; \<open>JSON.parse\<close> throws a \<open>SyntaxError\<close>, the mapping a \<open>TypeError\<close>, and the
      \<open>catch\<close> logs what was thrown and returns the empty array.\<close>
  "getSessionsLogged env st =
     (if \<not> windowDefined env then ([], [])
      else (case storage st of
              None \<Rightarrow> ([], [])
            | Some stored \<Rightarrow>
                if stored = [] then ([], [])
                else (case parseJson env stored of
                        None \<Rightarrow>
                          ([], [ConsoleError ''Error loading chat sessions:'' SyntaxError])
                      | Some parsed \<Rightarrow>
                          (case reviveSessions env parsed of
                             None \<Rightarrow>
                               ([], [ConsoleError ''Error loading chat sessions:'' TypeError])
                           | Some sessions \<Rightarrow> (sessions, [])))))"

definition getSessions :: "history_env \<Rightarrow> service \<Rightarrow> chat_session list" where
  \<comment> \<open>the array \<open>getSessions\<close> returns, which is all the other operations use of it\<close>
  "getSessions env st = fst (getSessionsLogged env st)"

definition saveSessions :: "history_env \<Rightarrow> chat_session list \<Rightarrow> service \<Rightarrow> service" where
  "saveSessions env sessions st =
     (if windowDefined env then st\<lparr>storage := Some (stringifySessions env sessions)\<rparr> else st)"

definition createNewSession :: "history_env \<Rightarrow> string \<Rightarrow> service \<Rightarrow> chat_session \<times> service" where
  "createNewSession env newTitle st =
     (let newSession = \<lparr>sessionId = generateId env, sessionTitle = newTitle, messages = [],
                         createdAt = now env, updatedAt = now env\<rparr>;
          sessions = getSessions env st;
          st' = saveSessions env (newSession # sessions) st
      in (newSession, st'\<lparr>currentSessionId := Some (sessionId newSession)\<rparr>))"

definition getCurrentSession :: "history_env \<Rightarrow> service \<Rightarrow> chat_session option" where
  "getCurrentSession env st =
     (if isFalsy (currentSessionId st) then None
      else find (\<lambda>session. Some (sessionId session) = currentSessionId st) (getSessions env st))"

definition setCurrentSession :: "string \<Rightarrow> service \<Rightarrow> service" where
  "setCurrentSession newId st = st\<lparr>currentSessionId := Some newId\<rparr>"

definition generateSessionTitle :: "string \<Rightarrow> string" where
  "generateSessionTitle firstMessage =
     (let words = join '' '' (take 5 (split CHR '' '' firstMessage))
      in if length words > 30 then substring0 30 words @ ''...'' else words)"

definition addMessageToCurrentSession ::
  "history_env \<Rightarrow> chat_message \<Rightarrow> slide list option \<Rightarrow> service \<Rightarrow> service" where
  "addMessageToCurrentSession env msg newSlides st =
     (let st1 = (if isFalsy (currentSessionId st)
                 then snd (createNewSession env (generateSessionTitle (msgText msg)) st)
                 else st);
          sessions = getSessions env st1
      in case findIndex (\<lambda>s. Some (sessionId s) = currentSessionId st1) sessions of
           None \<Rightarrow> st1
         | Some sessionIndex \<Rightarrow>
             (let messageWithSlides =
                    (case newSlides of Some sl \<Rightarrow> msg\<lparr>slides := Some sl\<rparr> | None \<Rightarrow> msg);
                  session = sessions ! sessionIndex;
                  pushed = session\<lparr>messages := messages session @ [messageWithSlides],
                                   updatedAt := now env\<rparr>;
                  titled = (if isUser msg \<and> length (filter isUser (messages pushed)) = 1
                            then pushed\<lparr>sessionTitle := generateSessionTitle (msgText msg)\<rparr>
                            else pushed)
              in saveSessions env (sessions[sessionIndex := titled]) st1))"

definition updateCurrentSessionSlides :: "history_env \<Rightarrow> slide list \<Rightarrow> service \<Rightarrow> service" where
  "updateCurrentSessionSlides env newSlides st =
     (if isFalsy (currentSessionId st) then st
      else
        (let sessions = getSessions env st
         in case findIndex (\<lambda>s. Some (sessionId s) = currentSessionId st) sessions of
              None \<Rightarrow> st
            | Some sessionIndex \<Rightarrow>
                (let session = sessions ! sessionIndex;
                     msgs = messages session
                 in if length msgs > 0
                    then (let lastMessageIndex = length msgs - 1
                          in if \<not> isUser (msgs ! lastMessageIndex)
                             then saveSessions env
                                    (sessions[sessionIndex :=
                                       session\<lparr>messages :=
                                                 msgs[lastMessageIndex :=
                                                   (msgs ! lastMessageIndex)\<lparr>slides := Some newSlides\<rparr>],
                                               updatedAt := now env\<rparr>])
                                    st
                             else st)
                    else st)))"

section \<open>ppt-generator.ts: drawing one slide\<close>

text \<open>
  The options object of \<open>slide.addText\<close>: \<open>x\<close>, \<open>y\<close>, \<open>w\<close>, \<open>h\<close> (inches, exact
  rationals for the decimal literals of the source), \<open>fontSize\<close>, \<open>bold\<close>, \<open>color\<close>,
  \<open>align\<close>, \<open>fontFace\<close> and \<open>bullet\<close>. An option the call leaves out is \<open>None\<close>, or
  \<open>False\<close> for the two flags.
\<close>

record text_opts =
  posX :: rat
  posY :: rat
  width :: rat
  height :: rat
  fontSize :: nat
  bold :: bool
  color :: "string option"
  align :: "string option"
  fontFace :: string
  bullet :: bool

text \<open>The slide object of the rendering library: its background and the texts added, in order.\<close>

record pptx_slide =
  background :: "string option"
  texts :: "(string \<times> text_opts) list"

definition emptySlide :: pptx_slide where
  \<comment> \<open>what \<open>pptx.addSlide()\<close> returns\<close>
  "emptySlide = \<lparr>background = None, texts = []\<rparr>"

definition addText :: "string \<Rightarrow> text_opts \<Rightarrow> pptx_slide \<Rightarrow> pptx_slide" where
  "addText t opts s = s\<lparr>texts := texts s @ [(t, opts)]\<rparr>"

definition bulletPrefix :: string where
  \<comment> \<open>what stands before \<open>${point}\<close> in the template literal, byte for byte as the source
      file stores it (a bullet sign that went through a wrong decoding), and a space\<close>
  "bulletPrefix = [CHR 0xC3, CHR 0xA2, CHR 0xE2, CHR 0x82, CHR 0xAC, CHR 0xC2, CHR 0xA2, CHR 0x20]"

definition bulletOpts :: "nat \<Rightarrow> text_opts" where
  "bulletOpts pointIndex =
     \<lparr>posX = 1, posY = 18 / 10 + of_nat pointIndex * (8 / 10), width = 8, height = 6 / 10,
      fontSize = 16, bold = False, color = None, align = None, fontFace = ''Arial'',
      bullet = True\<rparr>"

fun addBullets :: "nat \<Rightarrow> string list \<Rightarrow> pptx_slide \<Rightarrow> pptx_slide" where
  \<comment> \<open>\<open>slideData.content.forEach((point, pointIndex) => ...)\<close>, from \<open>pointIndex\<close> on\<close>
  "addBullets pointIndex [] s = s"
| "addBullets pointIndex (point # points) s =
     addBullets (Suc pointIndex) points (addText (bulletPrefix @ point) (bulletOpts pointIndex) s)"

definition createSimpleSlide :: "pptx_slide \<Rightarrow> slide \<Rightarrow> nat \<Rightarrow> pptx_slide" where
  "createSimpleSlide s slideData index =
     (if layout slideData = ''TITLE'' then
        (let s1 = addText (title slideData)
                    \<lparr>posX = 1 / 2, posY = 2, width = 9, height = 2, fontSize = 44, bold = True,
                     color = Some ''2C5AA0'', align = Some ''center'', fontFace = ''Arial'',
                     bullet = False\<rparr> s
         in if length (content slideData) > 0
            then addText (content slideData ! 0)
                   \<lparr>posX = 1 / 2, posY = 4, width = 9, height = 1, fontSize = 24, bold = False,
                    color = Some ''666666'', align = Some ''center'', fontFace = ''Arial'',
                    bullet = False\<rparr> s1
            else s1)
      else if layout slideData = ''SECTION_HEADER'' then
        (let s0 = s\<lparr>background := Some ''2C5AA0''\<rparr>;
             s1 = addText (title slideData)
                    \<lparr>posX = 1 / 2, posY = 3, width = 9, height = 3 / 2, fontSize = 36, bold = True,
                     color = Some ''FFFFFF'', align = Some ''center'', fontFace = ''Arial'',
                     bullet = False\<rparr> s0
         in if length (content slideData) > 0
            then addText (content slideData ! 0)
                   \<lparr>posX = 1, posY = 9 / 2, width = 8, height = 1, fontSize = 18, bold = False,
                    color = Some ''E6E6E6'', align = Some ''center'', fontFace = ''Arial'',
                    bullet = False\<rparr> s1
            else s1)
      else
        (let s1 = addText (title slideData)
                    \<lparr>posX = 1 / 2, posY = 1 / 2, width = 9, height = 1, fontSize = 28, bold = True,
                     color = Some ''2C5AA0'', align = None, fontFace = ''Arial'',
                     bullet = False\<rparr> s;
             s2 = addBullets 0 (content slideData) s1
         in addText (toString (index + 1))
              \<lparr>posX = 17 / 2, posY = 68 / 10, width = 1, height = 4 / 10, fontSize = 12,
               bold = False, color = Some ''666666'', align = Some ''right'', fontFace = ''Arial'',
               bullet = False\<rparr> s2))"

section \<open>ppt-generator.ts: the export run\<close>

datatype step = Initializing | Creating_slides | Finalizing | Complete | Error_step

text \<open>
  \<open>interface GenerationProgress\<close>; the five constructors of \<^typ>\<open>step\<close> are its five
  literals \<open>'initializing'\<close>, \<open>'creating_slides'\<close>, \<open>'finalizing'\<close>, \<open>'complete'\<close> and
  \<open>'error'\<close>. The percentage is a JavaScript number; the model computes it exactly.
\<close>

record generation_progress =
  step :: step
  message :: string
  percentage :: rat
  currentSlide :: "nat option"
  totalSlides :: "nat option"

datatype format = Pptx | Pdf

definition formatName :: "format \<Rightarrow> string" where
  "formatName f = (case f of Pptx \<Rightarrow> ''pptx'' | Pdf \<Rightarrow> ''pdf'')"

type_synonym blob = string

text \<open>What a run leaves on the download surface: a blob handed to \<open>downloadBlob\<close> under a
  file name, or a file the library wrote itself.\<close>

datatype artifact = Downloaded blob string | Written string

text \<open>
  The surroundings of a run: whether \<open>window\<close> is defined; what loading and constructing
  the library threw; what \<open>pptx.addSlide()\<close> threw for the slide at an index; what
  \<open>slide.addText\<close> threw while that slide was drawn; \<open>Date.now()\<close>;
  \<open>pptx.write({ outputType: 'blob' })\<close> and \<open>pptx.writeFile({ fileName, ... })\<close> on
  the slides drawn so far; \<open>URL.createObjectURL\<close>. \<open>None\<close> means nothing was thrown.
  The helper \<open>downloadBlob\<close>, which clicks a link it adds to the page, is taken not to
  throw.
\<close>

record render_env =
  inBrowser :: bool
  importPptxGen :: "js_error option"
  addSlide :: "nat \<Rightarrow> js_error option"
  drawSlide :: "nat \<Rightarrow> js_error option"
  dateNow :: nat
  writeBlob :: "pptx_slide list \<Rightarrow> js_error + blob"
  writeFile :: "pptx_slide list \<Rightarrow> string \<Rightarrow> js_error option"
  createObjectURL :: "blob \<Rightarrow> string"

text \<open>
  The result of a run: the progress events handed to \<open>onProgress\<close> in order (the callback
  only records them), the artifacts, and the value the promise resolves to or the error
  it rejects with.
\<close>

record export_run =
  events :: "generation_progress list"
  artifacts :: "artifact list"
  outcome :: "js_error + string"

definition creatingEvent :: "nat \<Rightarrow> nat \<Rightarrow> generation_progress" where
  "creatingEvent index count =
     \<lparr>step = Creating_slides,
      message = ''Creating slide '' @ toString (index + 1) @ '' of '' @ toString count @ ''...'',
      percentage = 30 + (of_nat index / of_nat count) * 50,
      currentSlide = Some (index + 1),
      totalSlides = Some count\<rparr>"

definition plainEvent :: "step \<Rightarrow> string \<Rightarrow> rat \<Rightarrow> generation_progress" where
  \<comment> \<open>an event without \<open>currentSlide\<close> and \<open>totalSlides\<close>\<close>
  "plainEvent st msg pct =
     \<lparr>step = st, message = msg, percentage = pct, currentSlide = None, totalSlides = None\<rparr>"

fun createSlides ::
  "render_env \<Rightarrow> nat \<Rightarrow> nat \<Rightarrow> slide list
     \<Rightarrow> generation_progress list \<times> pptx_slide list \<times> js_error option" where
  \<comment> \<open>the \<open>for\<close> loop from \<open>index\<close> on, over the slides not yet drawn: the events it emits,
      the slides it drew, and what stopped it\<close>
  "createSlides env count index [] = ([], [], None)"
| "createSlides env count index (slideData # rest) =
     (case addSlide env index of
        Some e \<Rightarrow> ([], [], Some e)
      | None \<Rightarrow>
          (case drawSlide env index of
             Some e \<Rightarrow> ([creatingEvent index count], [], Some e)
           | None \<Rightarrow>
               (case createSlides env count (Suc index) rest of
                  (evs, drawn, stopped) \<Rightarrow>
                    (creatingEvent index count # evs,
                     createSimpleSlide emptySlide slideData index # drawn,
                     stopped))))"

definition deliver ::
  "render_env \<Rightarrow> pptx_slide list \<Rightarrow> bool \<Rightarrow> format
     \<Rightarrow> generation_progress list \<times> artifact list \<times> (js_error + string)" where
  \<comment> \<open>the \<open>try\<close> block behind the \<open>finalizing\<close> event, on the slides drawn: the events it
      emits, the artifacts, and the value returned or the error thrown\<close>
  "deliver env pptx forPreview fmt =
     (let timestamp = toString (dateNow env);
          fileName = ''presentation-'' @ timestamp @ ''.'' @ formatName fmt
      in if forPreview then
           (case writeBlob env pptx of
              Inl e \<Rightarrow> ([], [], Inl e)
            | Inr b \<Rightarrow>
                ([plainEvent Complete ''Presentation ready!'' 100], [],
                 Inr (createObjectURL env b)))
         else if fmt = Pdf then
           (case writeBlob env pptx of
              Inr b \<Rightarrow>
                ([plainEvent Complete ''PDF download started!'' 100],
                 [Downloaded b fileName],
                 Inr ''download-started'')
            | Inl pdfError \<Rightarrow>
                (case writeFile env pptx (''presentation-'' @ timestamp @ ''.pptx'') of
                   Some e \<Rightarrow> ([], [], Inl e)
                 | None \<Rightarrow>
                     ([plainEvent Complete ''PPTX downloaded (PDF not available)'' 100],
                      [Written (''presentation-'' @ timestamp @ ''.pptx'')],
                      Inr ''download-started'')))
         else
           (case writeFile env pptx fileName of
              Some e \<Rightarrow> ([], [], Inl e)
            | None \<Rightarrow>
                ([plainEvent Complete ''PPTX download started!'' 100],
                 [Written fileName],
                 Inr ''download-started'')))"

definition generatePresentationBody ::
  "render_env \<Rightarrow> slide list \<Rightarrow> bool \<Rightarrow> format \<Rightarrow> export_run" where
  \<comment> \<open>the \<open>try\<close> block\<close>
  "generatePresentationBody env slideList forPreview fmt =
     (case importPptxGen env of
        Some e \<Rightarrow> \<lparr>events = [], artifacts = [], outcome = Inl e\<rparr>
      | None \<Rightarrow>
          (let ev0 = [plainEvent Initializing ''Initializing presentation...'' 10]
           in case createSlides env (length slideList) 0 slideList of
                (evs, pptx, Some e) \<Rightarrow> \<lparr>events = ev0 @ evs, artifacts = [], outcome = Inl e\<rparr>
              | (evs, pptx, None) \<Rightarrow>
                  (let ev1 = ev0 @ evs @ [plainEvent Finalizing ''Finalizing presentation...'' 90]
                   in case deliver env pptx forPreview fmt of
                        (evs2, written, result) \<Rightarrow>
                          \<lparr>events = ev1 @ evs2, artifacts = written, outcome = result\<rparr>)))"

definition generatePresentation ::
  "render_env \<Rightarrow> slide list \<Rightarrow> bool \<Rightarrow> format \<Rightarrow> export_run" where
  \<comment> \<open>the guard before the \<open>try\<close> throws without an event; the \<open>catch\<close> emits the error
      event and throws the error again\<close>
  "generatePresentation env slideList forPreview fmt =
     (if \<not> inBrowser env then
        \<lparr>events = [], artifacts = [],
         outcome = Inl (Error ''Presentation generation is only available in the browser'')\<rparr>
      else
        (let run = generatePresentationBody env slideList forPreview fmt
         in case outcome run of
              Inr r \<Rightarrow> run
            | Inl e \<Rightarrow>
                run\<lparr>events := events run @
                       [plainEvent Error_step
                          ''Error generating presentation. Please try again.'' 0]\<rparr>))"

section \<open>SlidePreview.tsx: saving an edit\<close>

text \<open>The component's property \<open>slides\<close> and its three pieces of state.\<close>

record preview =
  propSlides :: "slide list"
  currentSlideIndex :: int
  isEditing :: bool
  editContent :: string

definition handleSave :: "preview \<Rightarrow> preview \<times> slide list option" where
  \<comment> \<open>the new state and what \<open>onSlidesUpdate\<close> was called with (\<open>None\<close>: it was not called).
      \<open>slides[currentSlideIndex]\<close> is \<open>undefined\<close> outside the array.\<close>
  "handleSave p =
     (if 0 \<le> currentSlideIndex p \<and> nat (currentSlideIndex p) < length (propSlides p) then
        (let i = nat (currentSlideIndex p);
             cur = propSlides p ! i;
             updatedSlides =
               (propSlides p)[i := cur\<lparr>content :=
                                      filter (\<lambda>line. trim line \<noteq> [])
                                        (split CHR ''\<newline>'' (editContent p))\<rparr>]
         in (p\<lparr>isEditing := False\<rparr>, Some updatedSlides))
      else (p, None))"

section \<open>The session title as the specification words it\<close>

text \<open>
  The specification derives the title from the first five whitespace-separated words of
  the message, joined by single spaces. These two definitions follow that wording; they
  are compared with \<open>generateSessionTitle\<close> below.
\<close>

fun wordsFrom :: "string \<Rightarrow> string \<Rightarrow> string list" where
  \<comment> \<open>the words of a text, \<open>cur\<close> being the word read so far\<close>
  "wordsFrom cur [] = (if cur = [] then [] else [cur])"
| "wordsFrom cur (c # cs) =
     (if isWhiteSpace c then (if cur = [] then wordsFrom [] cs else cur # wordsFrom [] cs)
      else wordsFrom (cur @ [c]) cs)"

definition specSessionTitle :: "string \<Rightarrow> string" where
  "specSessionTitle firstMessage =
     (let words = join '' '' (take 5 (wordsFrom [] firstMessage))
      in if length words > 30 then take 30 words @ ''...'' else words)"

section \<open>Example surroundings\<close>

text \<open>
  Concrete values on which the theorems below are instantiated: a request, two messages,
  some stages of two sessions, and surroundings in which \<open>JSON.stringify\<close> and
  \<open>JSON.parse\<close> are doubles over a table of a few collections (any other collection is
  written as a text the double does not read back, any other text does not parse).
\<close>

definition teaSlides :: "slide list" where
  "teaSlides =
     [\<lparr>title = ''Tea'', content = [''A short history'', ''not drawn''], layout = ''TITLE''\<rparr>,
      \<lparr>title = ''Origins'', content = [''China'', ''Trade routes''], layout = ''TITLE_CONTENT''\<rparr>,
      \<lparr>title = ''Today'', content = [''Markets''], layout = ''SECTION_HEADER''\<rparr>,
      \<lparr>title = ''Thanks'', content = [''Questions''], layout = ''CLOSING''\<rparr>]"

definition teaRequest :: string where
  "teaRequest = ''Create a three slide presentation about the history of tea''"

definition followUp :: chat_message where
  "followUp =
     \<lparr>msgId = ''1003'', msgText = ''Now make it five slides'', isUser = True, timestamp = 1003,
      slides = None\<rparr>"

definition userMessage :: chat_message where
  "userMessage =
     \<lparr>msgId = ''1001'', msgText = teaRequest, isUser = True, timestamp = 1001, slides = None\<rparr>"

definition assistantMessage :: chat_message where
  "assistantMessage =
     \<lparr>msgId = ''1002'', msgText = ''I have created a presentation with 3 slides!'',
      isUser = False, timestamp = 1002, slides = None\<rparr>"

definition freshSession :: chat_session where
  "freshSession =
     \<lparr>sessionId = ''s1'', sessionTitle = ''New Presentation'', messages = [],
      createdAt = 1000, updatedAt = 1000\<rparr>"

definition askedSession :: chat_session where
  "askedSession =
     freshSession\<lparr>sessionTitle := ''Create a three slide presentat...'',
                  messages := [userMessage], updatedAt := 2000\<rparr>"

definition answeredSession :: chat_session where
  "answeredSession =
     askedSession\<lparr>messages := [userMessage, assistantMessage]\<rparr>"

definition patchedSession :: chat_session where
  \<comment> \<open>the answered session once a document is attached to its last message\<close>
  "patchedSession =
     answeredSession\<lparr>messages := [userMessage, assistantMessage\<lparr>slides := Some teaSlides\<rparr>]\<rparr>"

definition startedSession :: chat_session where
  \<comment> \<open>a session created at time 2000 under the identifier \<open>s2\<close>\<close>
  "startedSession =
     \<lparr>sessionId = ''s2'', sessionTitle = ''Create a three slide presentat...'', messages = [],
      createdAt = 2000, updatedAt = 2000\<rparr>"

definition demoTable :: "(string \<times> chat_session list) list" where
  "demoTable =
     [(''[]'', []),
      (''[fresh]'', [freshSession]),
      (''[asked]'', [askedSession]),
      (''[answered]'', [answeredSession]),
      (''[patched]'', [patchedSession]),
      (''[started,asked]'', [startedSession, askedSession]),
      (''[started+message,asked]'',
         [startedSession\<lparr>messages := [userMessage]\<rparr>, askedSession])]"

definition demoEnv :: history_env where
  "demoEnv =
     \<lparr>windowDefined = True,
      parseJson = (\<lambda>s. case map_of demoTable s of None \<Rightarrow> None | Some ss \<Rightarrow> Some (JStr s)),
      reviveSessions = (\<lambda>v. case v of JStr s \<Rightarrow> map_of demoTable s | _ \<Rightarrow> None),
      stringifySessions =
        (\<lambda>ss. case find (\<lambda>e. snd e = ss) demoTable of Some e \<Rightarrow> fst e | None \<Rightarrow> ''[...]''),
      now = 2000,
      generateId = ''s2''\<rparr>"

definition editing :: preview where
  \<comment> \<open>the preview on the second slide, with an edit in which two lines are blank\<close>
  "editing =
     \<lparr>propSlides = teaSlides, currentSlideIndex = 1, isEditing = True,
      editContent = ''China\<newline>   \<newline>\<newline>Silk road\<newline>''\<rparr>"

definition workingEnv :: render_env where
  \<comment> \<open>a browser in which the rendering library does all it is asked\<close>
  "workingEnv =
     \<lparr>inBrowser = True, importPptxGen = None, addSlide = (\<lambda>i. None), drawSlide = (\<lambda>i. None),
      dateNow = 42, writeBlob = (\<lambda>drawn. Inr ''PK''), writeFile = (\<lambda>drawn name. None),
      createObjectURL = (\<lambda>b. ''blob:1'')\<rparr>"

definition noPdfEnv :: render_env where
  \<comment> \<open>the same browser when writing a blob fails\<close>
  "noPdfEnv = workingEnv\<lparr>writeBlob := (\<lambda>drawn. Inl (Error ''PDF export is not available''))\<rparr>"

definition fullDiskEnv :: render_env where
  \<comment> \<open>the same browser when writing a file fails\<close>
  "fullDiskEnv = workingEnv\<lparr>writeFile := (\<lambda>drawn name. Some (Error ''disk full''))\<rparr>"

definition serverEnv :: render_env where
  \<comment> \<open>the same surroundings without a \<open>window\<close>\<close>
  "serverEnv = workingEnv\<lparr>inBrowser := False\<rparr>"

section \<open>Auxiliary facts\<close>

lemma findIndex_Some:
  "findIndex P xs = Some i \<Longrightarrow> i < length xs \<and> P (xs ! i)"
proof (induction xs arbitrary: i)
  case Nil
  then show ?case by simp
next
  case (Cons x xs)
  then show ?case by (auto split: if_splits)
qed

lemma findIndex_None: "findIndex P xs = None \<longleftrightarrow> (\<forall>x\<in>set xs. \<not> P x)"
  by (induction xs) auto

lemma getSessions_nonempty_window: "getSessions env st \<noteq> [] \<Longrightarrow> windowDefined env"
  by (auto simp: getSessions_def getSessionsLogged_def split: if_splits)

lemma findIndex_window:
  assumes "findIndex P (getSessions env st) = Some i"
  shows "windowDefined env"
proof -
  from assms have "i < length (getSessions env st)" by (simp add: findIndex_Some)
  then have "getSessions env st \<noteq> []" by auto
  then show ?thesis by (rule getSessions_nonempty_window)
qed

lemma createNewSession_result:
  "createNewSession env newTitle st
     = (\<lparr>sessionId = generateId env, sessionTitle = newTitle, messages = [],
         createdAt = now env, updatedAt = now env\<rparr>,
        \<lparr>storage =
           (if windowDefined env
            then Some (stringifySessions env
                   (\<lparr>sessionId = generateId env, sessionTitle = newTitle, messages = [],
                      createdAt = now env, updatedAt = now env\<rparr>
                    # getSessions env st))
            else storage st),
         currentSessionId = Some (generateId env)\<rparr>)"
  by (simp add: createNewSession_def saveSessions_def Let_def)

lemma update_last: "xs \<noteq> [] \<Longrightarrow> xs[length xs - Suc 0 := x] = butlast xs @ [x]"
  by (induction xs rule: rev_induct) (auto simp: list_update_append)

lemma demo_sessions:
  "getSessions demoEnv \<lparr>storage = Some ''[fresh]'', currentSessionId = c\<rparr> = [freshSession]"
  "getSessions demoEnv \<lparr>storage = Some ''[asked]'', currentSessionId = c\<rparr> = [askedSession]"
  "getSessions demoEnv \<lparr>storage = Some ''[answered]'', currentSessionId = c\<rparr> = [answeredSession]"
  "getSessions demoEnv \<lparr>storage = Some ''[started,asked]'', currentSessionId = c\<rparr>
     = [startedSession, askedSession]"
  by (simp_all add: getSessions_def getSessionsLogged_def demoEnv_def demoTable_def)

lemma demo_now: "now demoEnv = 2000"
  by (simp add: demoEnv_def)

lemma title_tea: "generateSessionTitle teaRequest = ''Create a three slide presentat...''"
  by (simp add: generateSessionTitle_def teaRequest_def substring0_def)

lemma no_json:
  "parseResponseBody (\<lambda>s. None) ''Sorry, I cannot help with that.''
     = Inl (Error ''No JSON found in response'')"
  by (simp add: parseResponseBody_def matchJson_def trim_def fence_def isWhiteSpace_def)

lemma split_nonempty: "split sep s \<noteq> []"
  by (induction s) (auto split: list.splits)

lemma split_no_sep: "sep \<notin> set w \<Longrightarrow> split sep w = [w]"
  by (induction w) auto

lemma split_append_sep:
  "sep \<notin> set w \<Longrightarrow> split sep (w @ sep # rest) = w # split sep rest"
  by (induction w) auto

lemma split_join:
  assumes "ws \<noteq> []" and "\<forall>w\<in>set ws. sep \<notin> set w"
  shows "split sep (join [sep] ws) = ws"
  using assms
proof (induction "[sep]" ws rule: join.induct)
  case 1
  then show ?case by simp
next
  case (2 f)
  then show ?case by (simp add: split_no_sep)
next
  case (3 f g fs)
  then show ?case by (simp add: split_append_sep)
qed

lemma dropWhile_all_iff: "(\<forall>c\<in>set (dropWhile P s). P c) \<longleftrightarrow> (\<forall>c\<in>set s. P c)"
  by (induction s) auto

lemma trim_eq_Nil: "trim s = [] \<longleftrightarrow> (\<forall>c\<in>set s. isWhiteSpace c)"
proof -
  have "trim s = [] \<longleftrightarrow> dropWhile isWhiteSpace (rev (dropWhile isWhiteSpace s)) = []"
    by (simp add: trim_def)
  also have "\<dots> \<longleftrightarrow> (\<forall>c\<in>set (dropWhile isWhiteSpace s). isWhiteSpace c)"
    by (simp add: dropWhile_eq_Nil_conv)
  also have "\<dots> \<longleftrightarrow> (\<forall>c\<in>set s. isWhiteSpace c)"
    by (rule dropWhile_all_iff)
  finally show ?thesis .
qed

lemma emptySlide_fields: "background emptySlide = None" "texts emptySlide = []"
  by (simp_all add: emptySlide_def)

lemma texts_addText: "texts (addText t opts s) = texts s @ [(t, opts)]"
  by (simp add: addText_def)

lemma background_addText: "background (addText t opts s) = background s"
  by (simp add: addText_def)

lemma texts_addBullets:
  "texts (addBullets k points s)
     = texts s @ map (\<lambda>(j, point). (bulletPrefix @ point, bulletOpts j)) (enumerate k points)"
  by (induction points arbitrary: k s) (simp_all add: texts_addText)

lemma background_addBullets: "background (addBullets k points s) = background s"
  by (induction points arbitrary: k s) (simp_all add: background_addText)

lemma map_fst_bullets:
  "map fst (map (\<lambda>(j, point). (bulletPrefix @ point, bulletOpts j)) (enumerate k points))
     = map (\<lambda>point. bulletPrefix @ point) points"
  by (induction points arbitrary: k) simp_all

lemma map_snd_bullets:
  "map snd (map (\<lambda>(j, point). (bulletPrefix @ point, bulletOpts j)) (enumerate k points))
     = map bulletOpts [k..<k + length points]"
proof -
  have "map snd (map (\<lambda>(j, point). (bulletPrefix @ point, bulletOpts j)) (enumerate k points))
          = map bulletOpts (map fst (enumerate k points))"
    by (induction points arbitrary: k) simp_all
  then show ?thesis by (simp only: map_fst_enumerate)
qed

lemma createSlides_events:
  "createSlides env n k sl = (evs, drawn, stopped) \<Longrightarrow>
     length evs \<le> length sl
     \<and> evs = map (\<lambda>i. creatingEvent (k + i) n) [0..<length evs]
     \<and> (stopped = None \<longrightarrow> length evs = length sl)"
proof (induction sl arbitrary: k evs drawn stopped)
  case Nil
  then show ?case by simp
next
  case (Cons d sl)
  show ?case
  proof (cases "addSlide env k")
    case (Some e)
    with Cons.prems have "evs = []" and "stopped = Some e" by simp_all
    then show ?thesis by simp
  next
    case None
    note added = None
    show ?thesis
    proof (cases "drawSlide env k")
      case (Some e)
      with Cons.prems added have "evs = [creatingEvent k n]" and "stopped = Some e" by simp_all
      then show ?thesis by simp
    next
      case None
      obtain evs' drawn' stopped' where rest: "createSlides env n (Suc k) sl = (evs', drawn', stopped')"
        by (cases "createSlides env n (Suc k) sl") auto
      from Cons.IH [OF rest]
      have len: "length evs' \<le> length sl"
        and shape: "evs' = map (\<lambda>i. creatingEvent (Suc k + i) n) [0..<length evs']"
        and full: "stopped' = None \<longrightarrow> length evs' = length sl"
        by simp_all
      from Cons.prems added None rest
      have evs: "evs = creatingEvent k n # evs'" and st: "stopped = stopped'"
        by simp_all
      have "map (\<lambda>i. creatingEvent (k + i) n) [0..<Suc (length evs')]
              = creatingEvent k n # map (\<lambda>i. creatingEvent (Suc k + i) n) [0..<length evs']"
        by (simp add: map_upt_Suc del: upt_Suc)
      with shape have "evs = map (\<lambda>i. creatingEvent (k + i) n) [0..<length evs]"
        by (simp add: evs del: upt_Suc)
      with len full show ?thesis by (simp add: evs st)
    qed
  qed
qed

lemma percentage_creatingEvent:
  "percentage (creatingEvent i n) = 30 + (of_nat i / of_nat n) * 50"
  by (simp add: creatingEvent_def)

lemma percentage_creatingEvent_mono:
  "i \<le> j \<Longrightarrow> percentage (creatingEvent i n) \<le> percentage (creatingEvent j n)"
  by (simp add: percentage_creatingEvent divide_right_mono)

lemma percentage_creatingEvent_bounds:
  "10 \<le> percentage (creatingEvent i n)"
  "i < n \<Longrightarrow> percentage (creatingEvent i n) \<le> 90"
  "i < n \<Longrightarrow> percentage (creatingEvent i n) \<le> 100"
proof -
  have "(0::rat) \<le> (of_nat i / of_nat n) * 50" by simp
  then show "10 \<le> percentage (creatingEvent i n)"
    unfolding percentage_creatingEvent by linarith
next
  assume "i < n"
  then have "(of_nat i / of_nat n :: rat) \<le> 1" by simp
  then have "(of_nat i / of_nat n :: rat) * 50 \<le> 1 * 50"
    by (rule mult_right_mono) simp
  then show "percentage (creatingEvent i n) \<le> 90"
    unfolding percentage_creatingEvent by linarith
  then show "percentage (creatingEvent i n) \<le> 100" by linarith
qed

lemma sorted_creating:
  "sorted (map (\<lambda>i. percentage (creatingEvent i n)) [0..<m])"
proof -
  have "sorted_wrt (\<lambda>i j. percentage (creatingEvent i n) \<le> percentage (creatingEvent j n)) [0..<m]"
    by (rule sorted_wrt_mono_rel [where P = "(\<le>)"]) (simp_all add: percentage_creatingEvent_mono)
  then show ?thesis by (simp add: sorted_map)
qed

lemma sorted_run:
  assumes "m \<le> n" and "rest = [] \<or> rest = [90] \<or> rest = [90, 100]"
  shows "sorted ((10::rat) # map (\<lambda>i. percentage (creatingEvent i n)) [0..<m] @ rest)"
  using assms sorted_creating [of n m]
  by (auto simp: sorted_append percentage_creatingEvent_bounds intro: order_trans)


lemma deliver_shape:
  "deliver env pptx forPreview fmt = (evs, written, result) \<Longrightarrow>
     (case result of
        Inr r \<Rightarrow> \<exists>msg. evs = [plainEvent Complete msg 100]
      | Inl e \<Rightarrow> evs = [] \<and> written = [])"
  by (auto simp: deliver_def Let_def split: if_splits sum.splits option.splits)

lemma body_shape:
  fixes env sl forPreview fmt
  defines "B \<equiv> generatePresentationBody env sl forPreview fmt"
    and "n \<equiv> length sl"
    and "I \<equiv> plainEvent Initializing ''Initializing presentation...'' 10"
    and "F \<equiv> plainEvent Finalizing ''Finalizing presentation...'' 90"
  shows "case outcome B of
           Inr r \<Rightarrow>
             \<exists>msg. events B
                     = I # map (\<lambda>i. creatingEvent i n) [0..<n] @ [F, plainEvent Complete msg 100]
         | Inl e \<Rightarrow>
             events B = []
             \<or> (\<exists>m\<le>n. events B = I # map (\<lambda>i. creatingEvent i n) [0..<m])
             \<or> events B = I # map (\<lambda>i. creatingEvent i n) [0..<n] @ [F]"
proof (cases "importPptxGen env")
  case (Some e)
  then show ?thesis by (simp add: B_def generatePresentationBody_def)
next
  case None
  obtain evs drawn stopped where loop: "createSlides env n 0 sl = (evs, drawn, stopped)"
    by (cases "createSlides env n 0 sl") auto
  from createSlides_events [OF loop]
  have len: "length evs \<le> n"
    and shape: "evs = map (\<lambda>i. creatingEvent i n) [0..<length evs]"
    and full: "stopped = None \<longrightarrow> length evs = n"
    by (simp_all add: n_def)
  show ?thesis
  proof (cases stopped)
    case (Some e)
    with None loop have "outcome B = Inl e" and "events B = I # evs"
      by (simp_all add: B_def generatePresentationBody_def n_def I_def)
    moreover from shape len
    have "\<exists>m\<le>n. I # evs = I # map (\<lambda>i. creatingEvent i n) [0..<m]"
      by (intro exI [of _ "length evs"]) simp
    ultimately show ?thesis by simp
  next
    case stopped: None
    with full shape have evs: "evs = map (\<lambda>i. creatingEvent i n) [0..<n]" by simp
    obtain evs2 written result where d: "deliver env drawn forPreview fmt = (evs2, written, result)"
      by (cases "deliver env drawn forPreview fmt") auto
    from None loop stopped d
    have out: "outcome B = result" and ev: "events B = I # evs @ F # evs2"
      by (simp_all add: B_def generatePresentationBody_def n_def I_def F_def)
    from deliver_shape [OF d] show ?thesis
      by (cases result) (auto simp: out ev evs)
  qed
qed

lemma createSlides_all_drawn:
  assumes "\<And>i. addSlide env i = None" and "\<And>i. drawSlide env i = None"
  shows "snd (snd (createSlides env n k sl)) = None"
proof (induction sl arbitrary: k)
  case Nil
  then show ?case by simp
next
  case (Cons d sl)
  from Cons.IH [of "Suc k"] show ?case
    by (cases "createSlides env n (Suc k) sl") (simp add: assms)
qed

lemma outcome_all_drawn:
  assumes "inBrowser env" and "importPptxGen env = None"
    and "\<And>i. addSlide env i = None" and "\<And>i. drawSlide env i = None"
  shows "outcome (generatePresentation env sl forPreview fmt)
           = snd (snd (deliver env (fst (snd (createSlides env (length sl) 0 sl))) forPreview fmt))"
proof -
  obtain evs drawn stopped where loop: "createSlides env (length sl) 0 sl = (evs, drawn, stopped)"
    by (cases "createSlides env (length sl) 0 sl") auto
  with createSlides_all_drawn [of env "length sl" 0 sl, OF assms(3,4)]
  have "stopped = None" by simp
  with loop assms(1,2) show ?thesis
    by (simp add: generatePresentation_def generatePresentationBody_def Let_def
          split: prod.splits sum.splits)
qed

lemma working_outcome:
  "outcome (generatePresentation workingEnv sl False Pptx) = Inr ''download-started''"
  by (subst outcome_all_drawn) (simp_all add: workingEnv_def deliver_def Let_def)

lemma fullDisk_outcome:
  "outcome (generatePresentation fullDiskEnv sl False Pptx) = Inl (Error ''disk full'')"
  by (subst outcome_all_drawn) (simp_all add: fullDiskEnv_def workingEnv_def deliver_def Let_def)

section \<open>Properties of the session store\<close>

text \<open>
  Claim C8, as amended. \<open>getSessions\<close> returns an array and throws nothing, whatever is
  stored: when \<open>JSON.parse\<close> throws on the stored text, and also when the parsed value
  cannot be mapped to sessions, the result is the empty array. In a browser, for a stored
  text that is not empty, that failure is logged: the console receives one entry, the
  label \<open>Error loading chat sessions:\<close> with the error thrown. An empty stored text is
  taken as nothing stored (the test \<open>stored ? ... : []\<close>): the result is the empty array
  again, but nothing is parsed and nothing is logged; nor is anything logged where
  \<open>window\<close> is not defined.
\<close>

theorem getSessions_corrupt_blob:
  "(storage st = Some blob
      \<and> (parseJson env blob = None
           \<or> (\<exists>v. parseJson env blob = Some v \<and> reviveSessions env v = None))
      \<longrightarrow> getSessions env st = [])
   \<and> (windowDefined env \<and> storage st = Some blob \<and> blob \<noteq> [] \<and> parseJson env blob = None
      \<longrightarrow> getSessionsLogged env st
            = ([], [ConsoleError ''Error loading chat sessions:'' SyntaxError]))
   \<and> (\<forall>v. windowDefined env \<and> storage st = Some blob \<and> blob \<noteq> []
          \<and> parseJson env blob = Some v \<and> reviveSessions env v = None
      \<longrightarrow> getSessionsLogged env st
            = ([], [ConsoleError ''Error loading chat sessions:'' TypeError]))
   \<and> (storage st = Some [] \<or> storage st = None \<or> \<not> windowDefined env
      \<longrightarrow> getSessionsLogged env st = ([], []))
   \<and> getSessions env st = fst (getSessionsLogged env st)"
proof (intro conjI allI impI)
  assume "storage st = Some blob
      \<and> (parseJson env blob = None
           \<or> (\<exists>v. parseJson env blob = Some v \<and> reviveSessions env v = None))"
  then show "getSessions env st = []"
    by (auto simp: getSessions_def getSessionsLogged_def)
next
  assume "windowDefined env \<and> storage st = Some blob \<and> blob \<noteq> [] \<and> parseJson env blob = None"
  then show "getSessionsLogged env st
            = ([], [ConsoleError ''Error loading chat sessions:'' SyntaxError])"
    by (simp add: getSessionsLogged_def)
next
  fix v
  assume "windowDefined env \<and> storage st = Some blob \<and> blob \<noteq> []
          \<and> parseJson env blob = Some v \<and> reviveSessions env v = None"
  then show "getSessionsLogged env st
            = ([], [ConsoleError ''Error loading chat sessions:'' TypeError])"
    by (simp add: getSessionsLogged_def)
next
  assume "storage st = Some [] \<or> storage st = None \<or> \<not> windowDefined env"
  then show "getSessionsLogged env st = ([], [])"
    by (auto simp: getSessionsLogged_def)
next
  show "getSessions env st = fst (getSessionsLogged env st)"
    by (simp add: getSessions_def)
qed

theorem getSessions_corrupt_blob_witness:
  "windowDefined demoEnv
   \<and> storage \<lparr>storage = Some ''[{broken'', currentSessionId = None\<rparr> = Some ''[{broken''
   \<and> ''[{broken'' \<noteq> []
   \<and> parseJson demoEnv ''[{broken'' = None
   \<and> getSessions demoEnv \<lparr>storage = Some ''[{broken'', currentSessionId = None\<rparr> = []
   \<and> getSessionsLogged demoEnv \<lparr>storage = Some ''[{broken'', currentSessionId = None\<rparr>
       = ([], [ConsoleError ''Error loading chat sessions:'' SyntaxError])
   \<and> getSessionsLogged (demoEnv\<lparr>parseJson := (\<lambda>s. Some JNull)\<rparr>)
         \<lparr>storage = Some ''null'', currentSessionId = None\<rparr>
       = ([], [ConsoleError ''Error loading chat sessions:'' TypeError])"
proof -
  let ?st = "\<lparr>storage = Some ''[{broken'', currentSessionId = None\<rparr>"
  let ?st2 = "\<lparr>storage = Some ''null'', currentSessionId = None\<rparr>"
  let ?env2 = "demoEnv\<lparr>parseJson := (\<lambda>s. Some JNull)\<rparr>"
  have pre: "windowDefined demoEnv \<and> storage ?st = Some ''[{broken'' \<and> ''[{broken'' \<noteq> []
               \<and> parseJson demoEnv ''[{broken'' = None"
    by (simp add: demoEnv_def demoTable_def)
  have pre2: "windowDefined ?env2 \<and> storage ?st2 = Some ''null'' \<and> ''null'' \<noteq> []
               \<and> parseJson ?env2 ''null'' = Some JNull \<and> reviveSessions ?env2 JNull = None"
    by (simp add: demoEnv_def)
  note inst = getSessions_corrupt_blob [of ?st "''[{broken''" demoEnv]
  have "getSessions demoEnv ?st = []"
    using inst [THEN conjunct1] pre by simp
  moreover have "getSessionsLogged demoEnv ?st
       = ([], [ConsoleError ''Error loading chat sessions:'' SyntaxError])"
    using inst [THEN conjunct2, THEN conjunct1] pre by simp
  moreover have "getSessionsLogged ?env2 ?st2
       = ([], [ConsoleError ''Error loading chat sessions:'' TypeError])"
    using getSessions_corrupt_blob [of ?st2 "''null''" ?env2, THEN conjunct2, THEN conjunct2,
            THEN conjunct1, rule_format, of JNull] pre2
    by blast
  ultimately show ?thesis using pre by simp
qed

theorem getSessions_empty_blob_counterexample:
  "windowDefined demoEnv
   \<and> storage \<lparr>storage = Some '''', currentSessionId = None\<rparr> = Some ''''
   \<and> parseJson demoEnv '''' = None
   \<and> getSessionsLogged demoEnv \<lparr>storage = Some '''', currentSessionId = None\<rparr> = ([], [])"
  by (simp add: getSessionsLogged_def demoEnv_def demoTable_def)

text \<open>
  Claim C7. \<open>updateCurrentSessionSlides\<close> returns the state it was given (nothing is
  saved, so no \<open>slides\<close> field is replaced and no \<open>updatedAt\<close> is changed) when the
  current-session pointer is \<open>null\<close> or empty, when it matches no stored session, when the
  current session has no messages, and when its last message is user-authored. When the
  last message is assistant-authored, what is saved is the stored collection with, in the
  current session only, the \<open>slides\<close> field of the last message replaced and \<open>updatedAt\<close>
  set to the clock.
\<close>

theorem updateCurrentSessionSlides_frame:
  "(isFalsy (currentSessionId st) \<longrightarrow> updateCurrentSessionSlides env newSlides st = st)
   \<and> (findIndex (\<lambda>s. Some (sessionId s) = currentSessionId st) (getSessions env st) = None
        \<longrightarrow> updateCurrentSessionSlides env newSlides st = st)
   \<and> (\<forall>i. findIndex (\<lambda>s. Some (sessionId s) = currentSessionId st) (getSessions env st) = Some i
          \<longrightarrow> (messages (getSessions env st ! i) = []
                 \<or> isUser (last (messages (getSessions env st ! i))))
          \<longrightarrow> updateCurrentSessionSlides env newSlides st = st)
   \<and> (\<forall>i. \<not> isFalsy (currentSessionId st)
          \<longrightarrow> findIndex (\<lambda>s. Some (sessionId s) = currentSessionId st) (getSessions env st) = Some i
          \<longrightarrow> messages (getSessions env st ! i) \<noteq> []
          \<longrightarrow> \<not> isUser (last (messages (getSessions env st ! i)))
          \<longrightarrow> updateCurrentSessionSlides env newSlides st
                = st\<lparr>storage := Some (stringifySessions env
                       ((getSessions env st)[i := (getSessions env st ! i)
                          \<lparr>messages := butlast (messages (getSessions env st ! i))
                                        @ [(last (messages (getSessions env st ! i)))
                                             \<lparr>slides := Some newSlides\<rparr>],
                           updatedAt := now env\<rparr>]))\<rparr>)"
proof (intro conjI allI impI)
  assume "isFalsy (currentSessionId st)"
  then show "updateCurrentSessionSlides env newSlides st = st"
    by (simp add: updateCurrentSessionSlides_def)
next
  assume "findIndex (\<lambda>s. Some (sessionId s) = currentSessionId st) (getSessions env st) = None"
  then show "updateCurrentSessionSlides env newSlides st = st"
    by (simp add: updateCurrentSessionSlides_def)
next
  fix i
  assume found: "findIndex (\<lambda>s. Some (sessionId s) = currentSessionId st) (getSessions env st) = Some i"
    and quiet: "messages (getSessions env st ! i) = [] \<or> isUser (last (messages (getSessions env st ! i)))"
  show "updateCurrentSessionSlides env newSlides st = st"
  proof (cases "messages (getSessions env st ! i) = []")
    case True
    with found show ?thesis by (simp add: updateCurrentSessionSlides_def)
  next
    case False
    with quiet have "isUser (messages (getSessions env st ! i) ! (length (messages (getSessions env st ! i)) - 1))"
      by (simp add: last_conv_nth)
    with found False show ?thesis by (simp add: updateCurrentSessionSlides_def Let_def)
  qed
next
  fix i
  assume truthy: "\<not> isFalsy (currentSessionId st)"
    and found: "findIndex (\<lambda>s. Some (sessionId s) = currentSessionId st) (getSessions env st) = Some i"
    and nonempty: "messages (getSessions env st ! i) \<noteq> []"
    and assistant: "\<not> isUser (last (messages (getSessions env st ! i)))"
  have w: "windowDefined env" using found by (rule findIndex_window)
  from nonempty assistant
  have "\<not> isUser (messages (getSessions env st ! i) ! (length (messages (getSessions env st ! i)) - 1))"
    by (simp add: last_conv_nth)
  with truthy found nonempty w
  show "updateCurrentSessionSlides env newSlides st
          = st\<lparr>storage := Some (stringifySessions env
                 ((getSessions env st)[i := (getSessions env st ! i)
                    \<lparr>messages := butlast (messages (getSessions env st ! i))
                                  @ [(last (messages (getSessions env st ! i)))
                                       \<lparr>slides := Some newSlides\<rparr>],
                     updatedAt := now env\<rparr>]))\<rparr>"
    by (simp add: updateCurrentSessionSlides_def Let_def saveSessions_def update_last last_conv_nth)
qed

theorem updateCurrentSessionSlides_frame_witness:
  "updateCurrentSessionSlides demoEnv teaSlides \<lparr>storage = Some ''[asked]'', currentSessionId = Some ''s1''\<rparr>
     = \<lparr>storage = Some ''[asked]'', currentSessionId = Some ''s1''\<rparr>
   \<and> updateCurrentSessionSlides demoEnv teaSlides \<lparr>storage = Some ''[fresh]'', currentSessionId = Some ''s1''\<rparr>
     = \<lparr>storage = Some ''[fresh]'', currentSessionId = Some ''s1''\<rparr>
   \<and> updateCurrentSessionSlides demoEnv teaSlides \<lparr>storage = Some ''[asked]'', currentSessionId = None\<rparr>
     = \<lparr>storage = Some ''[asked]'', currentSessionId = None\<rparr>
   \<and> updateCurrentSessionSlides demoEnv teaSlides \<lparr>storage = Some ''[answered]'', currentSessionId = Some ''s1''\<rparr>
     = \<lparr>storage = Some ''[patched]'', currentSessionId = Some ''s1''\<rparr>"
proof (intro conjI)
  note frame = updateCurrentSessionSlides_frame [where env = demoEnv and newSlides = teaSlides]
  show "updateCurrentSessionSlides demoEnv teaSlides \<lparr>storage = Some ''[asked]'', currentSessionId = Some ''s1''\<rparr>
     = \<lparr>storage = Some ''[asked]'', currentSessionId = Some ''s1''\<rparr>"
    by (rule frame [THEN conjunct2, THEN conjunct2, THEN conjunct1, rule_format, of _ 0])
       (simp_all add: demo_sessions askedSession_def freshSession_def userMessage_def)
  show "updateCurrentSessionSlides demoEnv teaSlides \<lparr>storage = Some ''[fresh]'', currentSessionId = Some ''s1''\<rparr>
     = \<lparr>storage = Some ''[fresh]'', currentSessionId = Some ''s1''\<rparr>"
    by (rule frame [THEN conjunct2, THEN conjunct2, THEN conjunct1, rule_format, of _ 0])
       (simp_all add: demo_sessions freshSession_def)
  show "updateCurrentSessionSlides demoEnv teaSlides \<lparr>storage = Some ''[asked]'', currentSessionId = None\<rparr>
     = \<lparr>storage = Some ''[asked]'', currentSessionId = None\<rparr>"
    by (rule frame [THEN conjunct1, rule_format]) (simp add: isFalsy_def)
  have "updateCurrentSessionSlides demoEnv teaSlides \<lparr>storage = Some ''[answered]'', currentSessionId = Some ''s1''\<rparr>
     = \<lparr>storage = Some ''[answered]'', currentSessionId = Some ''s1''\<rparr>
         \<lparr>storage := Some (stringifySessions demoEnv [patchedSession])\<rparr>"
    by (rule frame [THEN conjunct2, THEN conjunct2, THEN conjunct2, rule_format, of _ 0, THEN trans])
       (simp_all add: isFalsy_def demo_sessions demo_now answeredSession_def askedSession_def
          freshSession_def patchedSession_def assistantMessage_def)
  then show "updateCurrentSessionSlides demoEnv teaSlides \<lparr>storage = Some ''[answered]'', currentSessionId = Some ''s1''\<rparr>
     = \<lparr>storage = Some ''[patched]'', currentSessionId = Some ''s1''\<rparr>"
    by (simp add: demoEnv_def demoTable_def patchedSession_def answeredSession_def askedSession_def
          freshSession_def assistantMessage_def)
qed

text \<open>
  Claim C9, as amended. When the current-session pointer holds a non-empty identifier that
  no stored session has, \<open>addMessageToCurrentSession\<close> returns the state it was given:
  no session is created, the message is dropped, nothing is saved. A session is created
  when the pointer is falsy, that is \<open>null\<close> or the empty identifier (the test is
  \<open>!this.currentSessionId\<close>): \<open>createNewSession\<close> makes a session titled from the
  message text, saves it in front of the stored collection (in a browser) and points to
  it, and the call goes on as a call on that state. When the saved collection reads back
  as it was written, the message ends up as the one message of the new session, in front
  of the sessions stored before. Where \<open>window\<close> is not defined nothing is saved and only
  the pointer changes. With a pointer that is not falsy the pointer stays and the saved
  collection, if any, has as many sessions as the stored one.
\<close>

theorem addMessage_pointer_cases:
  "(currentSessionId st = Some sid \<and> sid \<noteq> []
      \<and> (\<forall>s\<in>set (getSessions env st). sessionId s \<noteq> sid)
      \<longrightarrow> addMessageToCurrentSession env msg newSlides st = st)
   \<and> createNewSession env (generateSessionTitle (msgText msg)) st
       = (\<lparr>sessionId = generateId env, sessionTitle = generateSessionTitle (msgText msg),
           messages = [], createdAt = now env, updatedAt = now env\<rparr>,
          \<lparr>storage =
             (if windowDefined env
              then Some (stringifySessions env
                     (\<lparr>sessionId = generateId env,
                        sessionTitle = generateSessionTitle (msgText msg),
                        messages = [], createdAt = now env, updatedAt = now env\<rparr>
                      # getSessions env st))
              else storage st),
           currentSessionId = Some (generateId env)\<rparr>)
   \<and> (isFalsy (currentSessionId st) \<and> generateId env \<noteq> []
      \<longrightarrow> addMessageToCurrentSession env msg newSlides st
            = addMessageToCurrentSession env msg newSlides
                (snd (createNewSession env (generateSessionTitle (msgText msg)) st)))
   \<and> (isFalsy (currentSessionId st) \<and> windowDefined env
      \<and> getSessions env (snd (createNewSession env (generateSessionTitle (msgText msg)) st))
          = \<lparr>sessionId = generateId env, sessionTitle = generateSessionTitle (msgText msg),
              messages = [], createdAt = now env, updatedAt = now env\<rparr>
            # getSessions env st
      \<longrightarrow> addMessageToCurrentSession env msg newSlides st
            = \<lparr>storage =
                 Some (stringifySessions env
                   (\<lparr>sessionId = generateId env,
                      sessionTitle = generateSessionTitle (msgText msg),
                      messages = [case newSlides of None \<Rightarrow> msg
                                  | Some sl \<Rightarrow> msg\<lparr>slides := Some sl\<rparr>],
                      createdAt = now env, updatedAt = now env\<rparr>
                    # getSessions env st)),
               currentSessionId = Some (generateId env)\<rparr>)
   \<and> (isFalsy (currentSessionId st) \<and> \<not> windowDefined env
      \<longrightarrow> addMessageToCurrentSession env msg newSlides st
            = st\<lparr>currentSessionId := Some (generateId env)\<rparr>)
   \<and> (\<not> isFalsy (currentSessionId st)
      \<longrightarrow> currentSessionId (addMessageToCurrentSession env msg newSlides st)
            = currentSessionId st
          \<and> (addMessageToCurrentSession env msg newSlides st = st
              \<or> (\<exists>i s'. i < length (getSessions env st)
                    \<and> addMessageToCurrentSession env msg newSlides st
                        = st\<lparr>storage :=
                              Some (stringifySessions env ((getSessions env st)[i := s']))\<rparr>)))"
proof (intro conjI impI)
  assume "currentSessionId st = Some sid \<and> sid \<noteq> []
      \<and> (\<forall>s\<in>set (getSessions env st). sessionId s \<noteq> sid)"
  then have ptr: "currentSessionId st = Some sid" and sid: "sid \<noteq> []"
    and none: "\<forall>s\<in>set (getSessions env st). sessionId s \<noteq> sid"
    by simp_all
  have "\<not> isFalsy (currentSessionId st)"
    using ptr sid by (simp add: isFalsy_def)
  moreover have "findIndex (\<lambda>s. Some (sessionId s) = currentSessionId st) (getSessions env st) = None"
    using ptr none by (simp add: findIndex_None)
  ultimately show "addMessageToCurrentSession env msg newSlides st = st"
    by (simp add: addMessageToCurrentSession_def)
next
  show "createNewSession env (generateSessionTitle (msgText msg)) st
       = (\<lparr>sessionId = generateId env, sessionTitle = generateSessionTitle (msgText msg),
           messages = [], createdAt = now env, updatedAt = now env\<rparr>,
          \<lparr>storage =
             (if windowDefined env
              then Some (stringifySessions env
                     (\<lparr>sessionId = generateId env,
                        sessionTitle = generateSessionTitle (msgText msg),
                        messages = [], createdAt = now env, updatedAt = now env\<rparr>
                      # getSessions env st))
              else storage st),
           currentSessionId = Some (generateId env)\<rparr>)"
    by (rule createNewSession_result)
next
  assume "isFalsy (currentSessionId st) \<and> generateId env \<noteq> []"
  then have falsy: "isFalsy (currentSessionId st)" and gid: "generateId env \<noteq> []"
    by simp_all
  from gid have "\<not> isFalsy (currentSessionId
                   (snd (createNewSession env (generateSessionTitle (msgText msg)) st)))"
    by (simp add: createNewSession_result isFalsy_def)
  with falsy show "addMessageToCurrentSession env msg newSlides st
            = addMessageToCurrentSession env msg newSlides
                (snd (createNewSession env (generateSessionTitle (msgText msg)) st))"
    by (simp add: addMessageToCurrentSession_def)
next
  assume "isFalsy (currentSessionId st) \<and> windowDefined env
      \<and> getSessions env (snd (createNewSession env (generateSessionTitle (msgText msg)) st))
          = \<lparr>sessionId = generateId env, sessionTitle = generateSessionTitle (msgText msg),
              messages = [], createdAt = now env, updatedAt = now env\<rparr>
            # getSessions env st"
  then have falsy: "isFalsy (currentSessionId st)" and w: "windowDefined env"
    and reads: "getSessions env (snd (createNewSession env (generateSessionTitle (msgText msg)) st))
          = \<lparr>sessionId = generateId env, sessionTitle = generateSessionTitle (msgText msg),
              messages = [], createdAt = now env, updatedAt = now env\<rparr>
            # getSessions env st"
    by simp_all
  have ptr: "currentSessionId (snd (createNewSession env (generateSessionTitle (msgText msg)) st))
               = Some (generateId env)"
    by (simp add: createNewSession_result)
  from reads w
  have reads': "getSessions env
                  \<lparr>storage =
                     Some (stringifySessions env
                       (\<lparr>sessionId = generateId env,
                          sessionTitle = generateSessionTitle (msgText msg),
                          messages = [], createdAt = now env, updatedAt = now env\<rparr>
                        # getSessions env st)),
                   currentSessionId = Some (generateId env)\<rparr>
                = \<lparr>sessionId = generateId env,
                    sessionTitle = generateSessionTitle (msgText msg),
                    messages = [], createdAt = now env, updatedAt = now env\<rparr>
                  # getSessions env st"
    by (simp add: createNewSession_result)
  show "addMessageToCurrentSession env msg newSlides st
            = \<lparr>storage =
                 Some (stringifySessions env
                   (\<lparr>sessionId = generateId env,
                      sessionTitle = generateSessionTitle (msgText msg),
                      messages = [case newSlides of None \<Rightarrow> msg
                                  | Some sl \<Rightarrow> msg\<lparr>slides := Some sl\<rparr>],
                      createdAt = now env, updatedAt = now env\<rparr>
                    # getSessions env st)),
               currentSessionId = Some (generateId env)\<rparr>"
    using falsy w
    by (cases newSlides; cases "isUser msg")
       (simp_all add: addMessageToCurrentSession_def Let_def createNewSession_result reads'
          saveSessions_def)
next
  assume "isFalsy (currentSessionId st) \<and> \<not> windowDefined env"
  then have falsy: "isFalsy (currentSessionId st)" and w: "\<not> windowDefined env"
    by simp_all
  from w have "getSessions env (snd (createNewSession env (generateSessionTitle (msgText msg)) st)) = []"
    by (simp add: getSessions_def getSessionsLogged_def)
  with falsy w show "addMessageToCurrentSession env msg newSlides st
            = st\<lparr>currentSessionId := Some (generateId env)\<rparr>"
    by (simp add: addMessageToCurrentSession_def createNewSession_result)
next
  assume truthy: "\<not> isFalsy (currentSessionId st)"
  show "currentSessionId (addMessageToCurrentSession env msg newSlides st) = currentSessionId st"
    using truthy
    by (simp add: addMessageToCurrentSession_def Let_def saveSessions_def split: option.splits)
  show "addMessageToCurrentSession env msg newSlides st = st
          \<or> (\<exists>i s'. i < length (getSessions env st)
                \<and> addMessageToCurrentSession env msg newSlides st
                    = st\<lparr>storage :=
                          Some (stringifySessions env ((getSessions env st)[i := s']))\<rparr>)"
  proof (cases "findIndex (\<lambda>s. Some (sessionId s) = currentSessionId st) (getSessions env st)")
    case None
    with truthy show ?thesis by (simp add: addMessageToCurrentSession_def)
  next
    case (Some i)
    then have i: "i < length (getSessions env st)" by (simp add: findIndex_Some)
    have w: "windowDefined env" using Some by (rule findIndex_window)
    from truthy Some w
    have "addMessageToCurrentSession env msg newSlides st
            = st\<lparr>storage := Some (stringifySessions env
                 ((getSessions env st)[i :=
                    (if isUser msg
                        \<and> length (filter isUser
                              (messages (getSessions env st ! i)
                               @ [case newSlides of None \<Rightarrow> msg
                                  | Some sl \<Rightarrow> msg\<lparr>slides := Some sl\<rparr>])) = 1
                     then (getSessions env st ! i)
                            \<lparr>messages := messages (getSessions env st ! i)
                                         @ [case newSlides of None \<Rightarrow> msg
                                            | Some sl \<Rightarrow> msg\<lparr>slides := Some sl\<rparr>],
                             updatedAt := now env,
                             sessionTitle := generateSessionTitle (msgText msg)\<rparr>
                     else (getSessions env st ! i)
                            \<lparr>messages := messages (getSessions env st ! i)
                                         @ [case newSlides of None \<Rightarrow> msg
                                            | Some sl \<Rightarrow> msg\<lparr>slides := Some sl\<rparr>],
                             updatedAt := now env\<rparr>)]))\<rparr>"
      by (simp add: addMessageToCurrentSession_def Let_def saveSessions_def)
    then have "\<exists>s'. addMessageToCurrentSession env msg newSlides st
                 = st\<lparr>storage := Some (stringifySessions env ((getSessions env st)[i := s']))\<rparr>"
      by (rule exI)
    with i show ?thesis by blast
  qed
qed

theorem addMessage_pointer_cases_witness:
  "currentSessionId (setCurrentSession ''s9'' \<lparr>storage = Some ''[asked]'', currentSessionId = Some ''s1''\<rparr>) = Some ''s9''
   \<and> ''s9'' \<noteq> []
   \<and> map sessionId (getSessions demoEnv (setCurrentSession ''s9'' \<lparr>storage = Some ''[asked]'', currentSessionId = Some ''s1''\<rparr>)) = [''s1'']
   \<and> addMessageToCurrentSession demoEnv userMessage None
        (setCurrentSession ''s9'' \<lparr>storage = Some ''[asked]'', currentSessionId = Some ''s1''\<rparr>)
       = \<lparr>storage = Some ''[asked]'', currentSessionId = Some ''s9''\<rparr>
   \<and> isFalsy None
   \<and> windowDefined demoEnv
   \<and> addMessageToCurrentSession demoEnv userMessage None
        \<lparr>storage = Some ''[asked]'', currentSessionId = None\<rparr>
       = \<lparr>storage = Some ''[started+message,asked]'', currentSessionId = Some ''s2''\<rparr>
   \<and> addMessageToCurrentSession (demoEnv\<lparr>windowDefined := False\<rparr>) userMessage None
        \<lparr>storage = Some ''[asked]'', currentSessionId = None\<rparr>
       = \<lparr>storage = Some ''[asked]'', currentSessionId = Some ''s2''\<rparr>"
proof -
  let ?dangling = "setCurrentSession ''s9'' \<lparr>storage = Some ''[asked]'', currentSessionId = Some ''s1''\<rparr>"
  let ?none = "\<lparr>storage = Some ''[asked]'', currentSessionId = None\<rparr>"
  have pre1: "currentSessionId ?dangling = Some ''s9'' \<and> ''s9'' \<noteq> []
                \<and> (\<forall>s\<in>set (getSessions demoEnv ?dangling). sessionId s \<noteq> ''s9'')"
    by (simp add: setCurrentSession_def demo_sessions askedSession_def freshSession_def)
  have one: "addMessageToCurrentSession demoEnv userMessage None ?dangling
               = \<lparr>storage = Some ''[asked]'', currentSessionId = Some ''s9''\<rparr>"
    using addMessage_pointer_cases [of ?dangling "''s9''" demoEnv userMessage None, THEN conjunct1]
      pre1
    by (simp add: setCurrentSession_def)
  have ids: "map sessionId (getSessions demoEnv ?dangling) = [''s1'']"
    by (simp add: setCurrentSession_def demo_sessions askedSession_def freshSession_def)
  have gen: "generateId demoEnv = ''s2''" and w: "windowDefined demoEnv"
    and str: "stringifySessions demoEnv [startedSession, askedSession] = ''[started,asked]''"
    and str2: "stringifySessions demoEnv [startedSession\<lparr>messages := [userMessage]\<rparr>, askedSession]
                 = ''[started+message,asked]''"
    by (simp_all add: demoEnv_def demoTable_def startedSession_def askedSession_def
          freshSession_def)
  have mtext: "msgText userMessage = teaRequest" by (simp add: userMessage_def)
  have new: "\<lparr>sessionId = ''s2'', sessionTitle = ''Create a three slide presentat...'',
               messages = [], createdAt = 2000, updatedAt = 2000\<rparr>
             = startedSession"
    by (simp add: startedSession_def)
  have new': "\<lparr>sessionId = ''s2'', sessionTitle = ''Create a three slide presentat...'',
               messages = [userMessage], createdAt = 2000, updatedAt = 2000\<rparr>
             = startedSession\<lparr>messages := [userMessage]\<rparr>"
    by (simp add: startedSession_def)
  have reads: "getSessions demoEnv
                (snd (createNewSession demoEnv (generateSessionTitle (msgText userMessage)) ?none))
              = \<lparr>sessionId = generateId demoEnv,
                  sessionTitle = generateSessionTitle (msgText userMessage),
                  messages = [], createdAt = now demoEnv, updatedAt = now demoEnv\<rparr>
                # getSessions demoEnv ?none"
    using addMessage_pointer_cases [of ?none _ demoEnv userMessage None, THEN conjunct2, THEN conjunct1]
    by (simp add: gen mtext title_tea demo_now new w demo_sessions str)
  have two: "addMessageToCurrentSession demoEnv userMessage None ?none
               = \<lparr>storage = Some ''[started+message,asked]'', currentSessionId = Some ''s2''\<rparr>"
    using addMessage_pointer_cases [of ?none _ demoEnv userMessage None, THEN conjunct2,
            THEN conjunct2, THEN conjunct2, THEN conjunct1, rule_format, OF conjI [OF _ conjI [OF w reads]]]
    by (simp add: isFalsy_def gen mtext title_tea demo_now new' demo_sessions str2)
  have three: "addMessageToCurrentSession (demoEnv\<lparr>windowDefined := False\<rparr>) userMessage None ?none
               = \<lparr>storage = Some ''[asked]'', currentSessionId = Some ''s2''\<rparr>"
    using addMessage_pointer_cases [of ?none _ "demoEnv\<lparr>windowDefined := False\<rparr>" userMessage None,
            THEN conjunct2, THEN conjunct2, THEN conjunct2, THEN conjunct2, THEN conjunct1]
    by (simp add: isFalsy_def demoEnv_def)
  show ?thesis
    using pre1 ids one two three w by (simp add: isFalsy_def)
qed

theorem addMessage_empty_pointer_counterexample:
  "currentSessionId (setCurrentSession '''' \<lparr>storage = Some ''[asked]'', currentSessionId = Some ''s1''\<rparr>) = Some ''''
   \<and> map sessionId (getSessions demoEnv (setCurrentSession '''' \<lparr>storage = Some ''[asked]'', currentSessionId = Some ''s1''\<rparr>)) = [''s1'']
   \<and> addMessageToCurrentSession demoEnv userMessage None
        (setCurrentSession '''' \<lparr>storage = Some ''[asked]'', currentSessionId = Some ''s1''\<rparr>)
       = \<lparr>storage = Some ''[started+message,asked]'', currentSessionId = Some ''s2''\<rparr>
   \<and> addMessageToCurrentSession demoEnv userMessage None
        (setCurrentSession '''' \<lparr>storage = Some ''[asked]'', currentSessionId = Some ''s1''\<rparr>)
       \<noteq> setCurrentSession '''' \<lparr>storage = Some ''[asked]'', currentSessionId = Some ''s1''\<rparr>"
proof -
  let ?S = "\<lparr>storage = Some ''[asked]'', currentSessionId = Some ''''\<rparr>"
  have created: "snd (createNewSession demoEnv ''Create a three slide presentat...'' ?S)
                   = \<lparr>storage = Some ''[started,asked]'', currentSessionId = Some ''s2''\<rparr>"
    by (simp add: createNewSession_def saveSessions_def demo_sessions Let_def)
       (simp add: demoEnv_def demoTable_def startedSession_def askedSession_def freshSession_def)
  have reread: "getSessions demoEnv \<lparr>storage = Some ''[started,asked]'', currentSessionId = Some ''s2''\<rparr>
                  = [startedSession, askedSession]"
    by (simp add: getSessions_def getSessionsLogged_def demoEnv_def demoTable_def)
  have added: "addMessageToCurrentSession demoEnv userMessage None ?S
                 = \<lparr>storage = Some ''[started+message,asked]'', currentSessionId = Some ''s2''\<rparr>"
    apply (simp add: addMessageToCurrentSession_def isFalsy_def)
    apply (simp add: userMessage_def [THEN arg_cong, of msgText] title_tea created reread)
    apply (simp add: startedSession_def saveSessions_def Let_def title_tea userMessage_def [THEN arg_cong, of isUser] userMessage_def [THEN arg_cong, of msgText])
    apply (simp add: demoEnv_def demoTable_def startedSession_def askedSession_def freshSession_def)
    done
  show ?thesis
    using added by (simp add: setCurrentSession_def demo_sessions askedSession_def freshSession_def)
qed

text \<open>
  Claim C5, as amended. The title derived from a message text is made of the first five
  fields obtained by splitting the text at every single space, joined by single spaces,
  cut to its first 30 code units with three dots appended when it is longer than 30. When
  the text consists of words without spaces in them, separated by one space each, these
  are its first five words. When a message is appended to the current session, the title
  becomes the title derived from the message exactly when the message is user-authored and
  the session held no user-authored message before; in every other case the title stays
  as it was.
\<close>

theorem session_title_first_user_message:
  "generateSessionTitle t
     = (let fields = join '' '' (take 5 (split CHR '' '' t))
        in if length fields > 30 then take 30 fields @ ''...'' else fields)
   \<and> (ws \<noteq> [] \<and> (\<forall>w\<in>set ws. CHR '' '' \<notin> set w)
        \<longrightarrow> generateSessionTitle (join '' '' ws)
              = (let words = join '' '' (take 5 ws)
                 in if length words > 30 then take 30 words @ ''...'' else words))
   \<and> (\<not> isFalsy (currentSessionId st)
        \<and> findIndex (\<lambda>s. Some (sessionId s) = currentSessionId st) (getSessions env st) = Some i
        \<longrightarrow> addMessageToCurrentSession env msg newSlides st
              = st\<lparr>storage := Some (stringifySessions env
                     ((getSessions env st)[i := (getSessions env st ! i)
                        \<lparr>messages := messages (getSessions env st ! i)
                                      @ [case newSlides of None \<Rightarrow> msg
                                         | Some sl \<Rightarrow> msg\<lparr>slides := Some sl\<rparr>],
                         updatedAt := now env,
                         sessionTitle :=
                           (if isUser msg \<and> filter isUser (messages (getSessions env st ! i)) = []
                            then generateSessionTitle (msgText msg)
                            else sessionTitle (getSessions env st ! i))\<rparr>]))\<rparr>)"
proof (intro conjI impI)
  show "generateSessionTitle t
     = (let fields = join '' '' (take 5 (split CHR '' '' t))
        in if length fields > 30 then take 30 fields @ ''...'' else fields)"
    by (simp add: generateSessionTitle_def substring0_def Let_def)
next
  assume "ws \<noteq> [] \<and> (\<forall>w\<in>set ws. CHR '' '' \<notin> set w)"
  then have "split CHR '' '' (join '' '' ws) = ws"
    using split_join [of ws "CHR '' ''"] by simp
  then show "generateSessionTitle (join '' '' ws)
              = (let words = join '' '' (take 5 ws)
                 in if length words > 30 then take 30 words @ ''...'' else words)"
    by (simp add: generateSessionTitle_def substring0_def Let_def)
next
  assume a: "\<not> isFalsy (currentSessionId st)
        \<and> findIndex (\<lambda>s. Some (sessionId s) = currentSessionId st) (getSessions env st) = Some i"
  then have w: "windowDefined env" using findIndex_window by blast
  have one: "\<And>xs. (length (filter isUser xs) = 0) = (filter isUser xs = [])" by simp
  show "addMessageToCurrentSession env msg newSlides st
              = st\<lparr>storage := Some (stringifySessions env
                     ((getSessions env st)[i := (getSessions env st ! i)
                        \<lparr>messages := messages (getSessions env st ! i)
                                      @ [case newSlides of None \<Rightarrow> msg
                                         | Some sl \<Rightarrow> msg\<lparr>slides := Some sl\<rparr>],
                         updatedAt := now env,
                         sessionTitle :=
                           (if isUser msg \<and> filter isUser (messages (getSessions env st ! i)) = []
                            then generateSessionTitle (msgText msg)
                            else sessionTitle (getSessions env st ! i))\<rparr>]))\<rparr>"
  proof (cases newSlides)
    case None
    with a w show ?thesis
      by (cases "isUser msg") (auto simp: addMessageToCurrentSession_def Let_def saveSessions_def)
  next
    case (Some sl)
    with a w show ?thesis
      by (cases "isUser msg") (auto simp: addMessageToCurrentSession_def Let_def saveSessions_def)
  qed
qed


theorem session_title_first_user_message_witness:
  "generateSessionTitle teaRequest = ''Create a three slide presentat...''
   \<and> generateSessionTitle (join '' '' [''Create'', ''a'', ''deck'']) = ''Create a deck''
   \<and> addMessageToCurrentSession demoEnv userMessage None
         \<lparr>storage = Some ''[fresh]'', currentSessionId = Some ''s1''\<rparr>
       = \<lparr>storage = Some ''[asked]'', currentSessionId = Some ''s1''\<rparr>
   \<and> addMessageToCurrentSession demoEnv followUp None
         \<lparr>storage = Some ''[asked]'', currentSessionId = Some ''s1''\<rparr>
       = \<lparr>storage = Some (stringifySessions demoEnv
                              [askedSession\<lparr>messages := [userMessage, followUp]\<rparr>]),
          currentSessionId = Some ''s1''\<rparr>"
proof (intro conjI)
  note inst = session_title_first_user_message
  show "generateSessionTitle teaRequest = ''Create a three slide presentat...''"
    using inst [of teaRequest, THEN conjunct1] by (simp add: teaRequest_def)
  show "generateSessionTitle (join '' '' [''Create'', ''a'', ''deck'']) = ''Create a deck''"
    using inst [of _ "[''Create'', ''a'', ''deck'']", THEN conjunct2, THEN conjunct1] by simp
  have "addMessageToCurrentSession demoEnv userMessage None
         \<lparr>storage = Some ''[fresh]'', currentSessionId = Some ''s1''\<rparr>
       = \<lparr>storage = Some ''[fresh]'', currentSessionId = Some ''s1''\<rparr>
           \<lparr>storage := Some (stringifySessions demoEnv [askedSession])\<rparr>"
    by (rule inst [where env = demoEnv and i = 0, THEN conjunct2, THEN conjunct2, rule_format, THEN trans])
       (simp_all add: isFalsy_def demo_sessions demo_now freshSession_def askedSession_def
          userMessage_def [THEN arg_cong, of isUser] userMessage_def [THEN arg_cong, of msgText]
          title_tea)
  then show "addMessageToCurrentSession demoEnv userMessage None
         \<lparr>storage = Some ''[fresh]'', currentSessionId = Some ''s1''\<rparr>
       = \<lparr>storage = Some ''[asked]'', currentSessionId = Some ''s1''\<rparr>"
    by (simp add: demoEnv_def demoTable_def askedSession_def freshSession_def)
  show "addMessageToCurrentSession demoEnv followUp None
         \<lparr>storage = Some ''[asked]'', currentSessionId = Some ''s1''\<rparr>
       = \<lparr>storage = Some (stringifySessions demoEnv
                              [askedSession\<lparr>messages := [userMessage, followUp]\<rparr>]),
          currentSessionId = Some ''s1''\<rparr>"
    by (rule inst [where env = demoEnv and i = 0, THEN conjunct2, THEN conjunct2, rule_format, THEN trans])
       (simp_all add: isFalsy_def demo_sessions demo_now freshSession_def askedSession_def
          userMessage_def [THEN arg_cong, of isUser])
qed

theorem session_title_double_space_counterexample:
  "generateSessionTitle ''Make  slides about green tea history'' = ''Make  slides about green''
   \<and> specSessionTitle ''Make  slides about green tea history'' = ''Make slides about green tea''
   \<and> generateSessionTitle ''Make  slides about green tea history''
       \<noteq> specSessionTitle ''Make  slides about green tea history''"
  by (simp add: generateSessionTitle_def specSessionTitle_def isWhiteSpace_def)

section \<open>Properties of the client wrapper\<close>

text \<open>
  Claim C1. Whenever the \<open>try\<close> block of \<open>parseResponse\<close> fails on the text the upstream
  call returned (no JSON object found, \<open>JSON.parse\<close> throws, or the parsed value has no
  array under \<open>slides\<close>), \<open>parseResponse\<close> throws its own error, with the message that
  the response could not be parsed; but \<open>generateSlides\<close> calls it inside its own \<open>try\<close>,
  and what the caller receives is the error of a failed generation, the very value it
  receives when the upstream call itself fails.
\<close>

theorem generateSlides_parse_failure_masked:
  assumes "generateContent (buildSystemPrompt stringify existingSlides
             @ ''\<newline>\<newline>USER REQUEST: '' @ prompt) = Inr text"
    and "parseResponseBody jsonParse text = Inl e"
  shows "parseResponse jsonParse text
           = Inl (Error ''Failed to parse AI response. Please try again.'')
         \<and> generateSlides jsonParse stringify generateContent prompt existingSlides
           = Inl (Error ''Failed to generate presentation content. Please try again.'')
         \<and> generateSlides jsonParse stringify generateContent prompt existingSlides
           = generateSlides jsonParse stringify (\<lambda>p. Inl upstreamError) prompt existingSlides"
  using assms by (simp add: generateSlides_def parseResponse_def)

theorem generateSlides_parse_failure_masked_witness:
  "parseResponseBody (\<lambda>s. None) ''Sorry, I cannot help with that.''
     = Inl (Error ''No JSON found in response'')
   \<and> parseResponse (\<lambda>s. None) ''Sorry, I cannot help with that.''
     = Inl (Error ''Failed to parse AI response. Please try again.'')
   \<and> generateSlides (\<lambda>s. None) (\<lambda>d. ''[]'') (\<lambda>p. Inr ''Sorry, I cannot help with that.'') ''Tea'' []
     = Inl (Error ''Failed to generate presentation content. Please try again.'')
   \<and> generateSlides (\<lambda>s. None) (\<lambda>d. ''[]'') (\<lambda>p. Inr ''Sorry, I cannot help with that.'') ''Tea'' []
     = generateSlides (\<lambda>s. None) (\<lambda>d. ''[]'') (\<lambda>p. Inl TypeError) ''Tea'' []"
  using generateSlides_parse_failure_masked
          [of "\<lambda>p. Inr ''Sorry, I cannot help with that.''" "\<lambda>d. ''[]''" "[]" "''Tea''"
              "''Sorry, I cannot help with that.''" "\<lambda>s. None" "Error ''No JSON found in response''" TypeError]
    no_json
  by (simp add: generateSlides_def)

section \<open>Properties of the export pipeline\<close>

text \<open>
  Claim C6. On a fresh slide, for the slide data \<open>d\<close> at the 0-based position \<open>index\<close>:
  with the layout \<open>TITLE\<close> the texts drawn are the title and at most the first content
  line, both centred, on no background; with \<open>SECTION_HEADER\<close> the same two texts, both
  centred, on the coloured background; with any other layout, known or not, the title at
  the top left (\<open>x\<close> and \<open>y\<close> one half, no alignment given), then every content line in
  order as a bulleted row, each row lower than the one before, then the number
  \<open>index + 1\<close> aligned right at the bottom. The function is total: no layout is an error.
\<close>

theorem createSimpleSlide_layouts:
  "(layout d = ''TITLE'' \<longrightarrow>
      background (createSimpleSlide emptySlide d index) = None
      \<and> map fst (texts (createSimpleSlide emptySlide d index)) = title d # take 1 (content d)
      \<and> (\<forall>opts\<in>set (map snd (texts (createSimpleSlide emptySlide d index))).
            align opts = Some ''center'' \<and> \<not> bullet opts))
   \<and> (layout d = ''SECTION_HEADER'' \<longrightarrow>
      background (createSimpleSlide emptySlide d index) = Some ''2C5AA0''
      \<and> map fst (texts (createSimpleSlide emptySlide d index)) = title d # take 1 (content d)
      \<and> (\<forall>opts\<in>set (map snd (texts (createSimpleSlide emptySlide d index))).
            align opts = Some ''center'' \<and> \<not> bullet opts))
   \<and> (layout d \<noteq> ''TITLE'' \<and> layout d \<noteq> ''SECTION_HEADER'' \<longrightarrow>
      background (createSimpleSlide emptySlide d index) = None
      \<and> map fst (texts (createSimpleSlide emptySlide d index))
          = title d # map (\<lambda>point. bulletPrefix @ point) (content d) @ [toString (index + 1)]
      \<and> (\<exists>titleOpts numberOpts.
            map snd (texts (createSimpleSlide emptySlide d index))
              = titleOpts # map bulletOpts [0..<length (content d)] @ [numberOpts]
            \<and> posX titleOpts = 1 / 2 \<and> posY titleOpts = 1 / 2 \<and> align titleOpts = None
            \<and> posX numberOpts = 17 / 2 \<and> posY numberOpts = 68 / 10
            \<and> align numberOpts = Some ''right''))
   \<and> (\<forall>k. bullet (bulletOpts k) \<and> posX (bulletOpts k) = 1
            \<and> posY (bulletOpts k) = 18 / 10 + of_nat k * (8 / 10)
            \<and> posY (bulletOpts k) < posY (bulletOpts (Suc k)))"
proof (intro conjI impI allI)
  assume "layout d = ''TITLE''"
  then have r: "createSimpleSlide emptySlide d index
     = (let s1 = addText (title d)
                    \<lparr>posX = 1 / 2, posY = 2, width = 9, height = 2, fontSize = 44, bold = True,
                     color = Some ''2C5AA0'', align = Some ''center'', fontFace = ''Arial'',
                     bullet = False\<rparr> emptySlide
         in if length (content d) > 0
            then addText (content d ! 0)
                   \<lparr>posX = 1 / 2, posY = 4, width = 9, height = 1, fontSize = 24, bold = False,
                    color = Some ''666666'', align = Some ''center'', fontFace = ''Arial'',
                    bullet = False\<rparr> s1
            else s1)"
    by (simp add: createSimpleSlide_def)
  show "background (createSimpleSlide emptySlide d index) = None"
    by (simp add: r Let_def background_addText emptySlide_fields)
  show "map fst (texts (createSimpleSlide emptySlide d index)) = title d # take 1 (content d)"
    by (cases "content d") (simp_all add: r Let_def texts_addText emptySlide_fields)
  show "\<forall>opts\<in>set (map snd (texts (createSimpleSlide emptySlide d index))).
            align opts = Some ''center'' \<and> \<not> bullet opts"
    by (simp add: r Let_def texts_addText emptySlide_fields)
next
  assume "layout d = ''SECTION_HEADER''"
  then have r: "createSimpleSlide emptySlide d index
     = (let s0 = emptySlide\<lparr>background := Some ''2C5AA0''\<rparr>;
             s1 = addText (title d)
                    \<lparr>posX = 1 / 2, posY = 3, width = 9, height = 3 / 2, fontSize = 36, bold = True,
                     color = Some ''FFFFFF'', align = Some ''center'', fontFace = ''Arial'',
                     bullet = False\<rparr> s0
         in if length (content d) > 0
            then addText (content d ! 0)
                   \<lparr>posX = 1, posY = 9 / 2, width = 8, height = 1, fontSize = 18, bold = False,
                    color = Some ''E6E6E6'', align = Some ''center'', fontFace = ''Arial'',
                    bullet = False\<rparr> s1
            else s1)"
    by (simp add: createSimpleSlide_def)
  show "background (createSimpleSlide emptySlide d index) = Some ''2C5AA0''"
    by (simp add: r Let_def background_addText)
  show "map fst (texts (createSimpleSlide emptySlide d index)) = title d # take 1 (content d)"
    by (cases "content d") (simp_all add: r Let_def texts_addText emptySlide_fields)
  show "\<forall>opts\<in>set (map snd (texts (createSimpleSlide emptySlide d index))).
            align opts = Some ''center'' \<and> \<not> bullet opts"
    by (simp add: r Let_def texts_addText emptySlide_fields)
next
  assume other: "layout d \<noteq> ''TITLE'' \<and> layout d \<noteq> ''SECTION_HEADER''"
  define titleOpts where "titleOpts = \<lparr>posX = 1 / 2, posY = 1 / 2, width = 9, height = 1, fontSize = 28, bold = True,
                     color = Some ''2C5AA0'', align = None, fontFace = ''Arial'',
                     bullet = False\<rparr>"
  define numberOpts where "numberOpts = \<lparr>posX = 17 / 2, posY = 68 / 10, width = 1, height = 4 / 10, fontSize = 12,
               bold = False, color = Some ''666666'', align = Some ''right'', fontFace = ''Arial'',
               bullet = False\<rparr>"
  from other have r: "createSimpleSlide emptySlide d index
     = addText (toString (index + 1)) numberOpts
         (addBullets 0 (content d) (addText (title d) titleOpts emptySlide))"
    by (simp add: createSimpleSlide_def Let_def titleOpts_def numberOpts_def)
  show "background (createSimpleSlide emptySlide d index) = None"
    by (simp add: r background_addText background_addBullets emptySlide_fields)
  show "map fst (texts (createSimpleSlide emptySlide d index))
          = title d # map (\<lambda>point. bulletPrefix @ point) (content d) @ [toString (index + 1)]"
    using map_fst_bullets [of 0 "content d"]
    by (simp add: r texts_addText texts_addBullets emptySlide_fields)
  have "map snd (texts (createSimpleSlide emptySlide d index))
              = titleOpts # map bulletOpts [0..<length (content d)] @ [numberOpts]"
    using map_snd_bullets [of 0 "content d"]
    by (simp add: r texts_addText texts_addBullets emptySlide_fields)
  then show "\<exists>titleOpts numberOpts.
            map snd (texts (createSimpleSlide emptySlide d index))
              = titleOpts # map bulletOpts [0..<length (content d)] @ [numberOpts]
            \<and> posX titleOpts = 1 / 2 \<and> posY titleOpts = 1 / 2 \<and> align titleOpts = None
            \<and> posX numberOpts = 17 / 2 \<and> posY numberOpts = 68 / 10
            \<and> align numberOpts = Some ''right''"
    by (intro exI [of _ titleOpts] exI [of _ numberOpts]) (simp add: titleOpts_def numberOpts_def)
next
  fix k show "bullet (bulletOpts k)" by (simp add: bulletOpts_def)
next
  fix k show "posX (bulletOpts k) = 1" by (simp add: bulletOpts_def)
next
  fix k show "posY (bulletOpts k) = 18 / 10 + of_nat k * (8 / 10)" by (simp add: bulletOpts_def)
next
  fix k show "posY (bulletOpts k) < posY (bulletOpts (Suc k))" by (simp add: bulletOpts_def)
qed

theorem createSimpleSlide_layouts_witness:
  "layout (teaSlides ! 0) = ''TITLE''
   \<and> background (createSimpleSlide emptySlide (teaSlides ! 0) 0) = None
   \<and> map fst (texts (createSimpleSlide emptySlide (teaSlides ! 0) 0)) = [''Tea'', ''A short history'']
   \<and> layout (teaSlides ! 2) = ''SECTION_HEADER''
   \<and> background (createSimpleSlide emptySlide (teaSlides ! 2) 2) = Some ''2C5AA0''
   \<and> map fst (texts (createSimpleSlide emptySlide (teaSlides ! 2) 2)) = [''Today'', ''Markets'']
   \<and> layout (teaSlides ! 3) = ''CLOSING''
   \<and> background (createSimpleSlide emptySlide (teaSlides ! 3) 3) = None
   \<and> map fst (texts (createSimpleSlide emptySlide (teaSlides ! 3) 3))
       = [''Thanks'', bulletPrefix @ ''Questions'', ''4'']"
proof -
  have l0: "layout (teaSlides ! 0) = ''TITLE''"
    and l2: "layout (teaSlides ! 2) = ''SECTION_HEADER''"
    and l3: "layout (teaSlides ! 3) \<noteq> ''TITLE'' \<and> layout (teaSlides ! 3) \<noteq> ''SECTION_HEADER''"
    by (simp_all add: teaSlides_def)
  note first = createSimpleSlide_layouts
                 [of "teaSlides ! 0" 0, THEN conjunct1, rule_format, OF l0]
  note third = createSimpleSlide_layouts
                 [of "teaSlides ! 2" 2, THEN conjunct2, THEN conjunct1, rule_format, OF l2]
  note fourth = createSimpleSlide_layouts
                  [of "teaSlides ! 3" 3, THEN conjunct2, THEN conjunct2, THEN conjunct1,
                   rule_format, OF l3]
  have "map fst (texts (createSimpleSlide emptySlide (teaSlides ! 0) 0)) = [''Tea'', ''A short history'']"
    using first [THEN conjunct2, THEN conjunct1] by (simp add: teaSlides_def)
  moreover have "map fst (texts (createSimpleSlide emptySlide (teaSlides ! 2) 2)) = [''Today'', ''Markets'']"
    using third [THEN conjunct2, THEN conjunct1] by (simp add: teaSlides_def)
  moreover have "map fst (texts (createSimpleSlide emptySlide (teaSlides ! 3) 3))
       = [''Thanks'', bulletPrefix @ ''Questions'', ''4'']"
    using fourth [THEN conjunct2, THEN conjunct1]
    by (simp add: teaSlides_def digitChar_def toString.simps)
  moreover have "layout (teaSlides ! 3) = ''CLOSING''"
    by (simp add: teaSlides_def)
  ultimately show ?thesis
    using l0 l2 first [THEN conjunct1] third [THEN conjunct1] fourth [THEN conjunct1]
    by simp
qed

text \<open>
  Claim C3, as amended. For a document of \<open>n\<close> slides, a run that succeeds has emitted
  \<open>initializing\<close> at 10, then for each slide in order one \<open>creating_slides\<close> event with
  percentage \<open>30 + (index / n) * 50\<close>, the 1-based number of the slide and \<open>n\<close>, then
  \<open>finalizing\<close> at 90 and \<open>complete\<close> at 100, and these percentages never decrease. A
  run that fails in a browser has emitted the error event with percentage 0 last, once,
  and no \<open>complete\<close> event, and the percentages before the error event never decrease.
  Where \<open>window\<close> is not defined, the guard in front of the \<open>try\<close> throws and no event is
  emitted at all. Percentages are exact rationals here; the code computes them in floating
  point.
\<close>

theorem generatePresentation_progress:
  "(\<forall>r. outcome (generatePresentation env sl forPreview fmt) = Inr r \<longrightarrow>
      (\<exists>msg. events (generatePresentation env sl forPreview fmt)
               = plainEvent Initializing ''Initializing presentation...'' 10
                 # map (\<lambda>i. creatingEvent i (length sl)) [0..<length sl]
                 @ [plainEvent Finalizing ''Finalizing presentation...'' 90,
                    plainEvent Complete msg 100])
      \<and> sorted (map percentage (events (generatePresentation env sl forPreview fmt))))
   \<and> (\<forall>e. inBrowser env \<and> outcome (generatePresentation env sl forPreview fmt) = Inl e \<longrightarrow>
      events (generatePresentation env sl forPreview fmt) \<noteq> []
      \<and> last (events (generatePresentation env sl forPreview fmt))
          = plainEvent Error_step ''Error generating presentation. Please try again.'' 0
      \<and> (\<forall>ev\<in>set (butlast (events (generatePresentation env sl forPreview fmt))).
            step ev \<noteq> Error_step \<and> step ev \<noteq> Complete)
      \<and> sorted (map percentage (butlast (events (generatePresentation env sl forPreview fmt)))))
   \<and> (\<not> inBrowser env \<longrightarrow>
      events (generatePresentation env sl forPreview fmt) = []
      \<and> outcome (generatePresentation env sl forPreview fmt)
          = Inl (Error ''Presentation generation is only available in the browser''))
   \<and> (\<forall>i. step (creatingEvent i (length sl)) = Creating_slides
          \<and> percentage (creatingEvent i (length sl)) = 30 + (of_nat i / of_nat (length sl)) * 50
          \<and> currentSlide (creatingEvent i (length sl)) = Some (i + 1)
          \<and> totalSlides (creatingEvent i (length sl)) = Some (length sl))"
proof (intro conjI allI impI)
  fix r
  assume ok: "outcome (generatePresentation env sl forPreview fmt) = Inr r"
  then have br: "inBrowser env"
    by (auto simp: generatePresentation_def split: if_splits)
  with ok have same: "generatePresentation env sl forPreview fmt
                        = generatePresentationBody env sl forPreview fmt"
    by (auto simp: generatePresentation_def Let_def split: sum.splits)
  with ok body_shape [of env sl forPreview fmt]
  obtain msg where ev: "events (generatePresentation env sl forPreview fmt)
               = plainEvent Initializing ''Initializing presentation...'' 10
                 # map (\<lambda>i. creatingEvent i (length sl)) [0..<length sl]
                 @ [plainEvent Finalizing ''Finalizing presentation...'' 90,
                    plainEvent Complete msg 100]"
    by auto
  then show "\<exists>msg. events (generatePresentation env sl forPreview fmt)
               = plainEvent Initializing ''Initializing presentation...'' 10
                 # map (\<lambda>i. creatingEvent i (length sl)) [0..<length sl]
                 @ [plainEvent Finalizing ''Finalizing presentation...'' 90,
                    plainEvent Complete msg 100]"
    by (rule exI)
  show "sorted (map percentage (events (generatePresentation env sl forPreview fmt)))"
    using sorted_run [of "length sl" "length sl" "[90, 100]"]
    by (simp add: ev plainEvent_def comp_def)
next
  fix e
  assume "inBrowser env \<and> outcome (generatePresentation env sl forPreview fmt) = Inl e"
  then have br: "inBrowser env"
    and bad: "outcome (generatePresentation env sl forPreview fmt) = Inl e"
    by simp_all
  define B where "B = generatePresentationBody env sl forPreview fmt"
  define I where "I = plainEvent Initializing ''Initializing presentation...'' 10"
  define F where "F = plainEvent Finalizing ''Finalizing presentation...'' 90"
  define E where "E = plainEvent Error_step ''Error generating presentation. Please try again.'' 0"
  from br bad have out: "outcome B = Inl e"
    by (auto simp: generatePresentation_def Let_def B_def split: sum.splits)
  with br have ev: "events (generatePresentation env sl forPreview fmt) = events B @ [E]"
    by (simp add: generatePresentation_def Let_def B_def E_def)
  from out body_shape [of env sl forPreview fmt]
  have shape: "events B = []
     \<or> (\<exists>m\<le>length sl. events B = I # map (\<lambda>i. creatingEvent i (length sl)) [0..<m])
     \<or> events B = I # map (\<lambda>i. creatingEvent i (length sl)) [0..<length sl] @ [F]"
    by (simp add: B_def I_def F_def)
  have bl: "butlast (events (generatePresentation env sl forPreview fmt)) = events B"
    by (simp add: ev)
  show "events (generatePresentation env sl forPreview fmt) \<noteq> []"
    by (simp add: ev)
  show "last (events (generatePresentation env sl forPreview fmt))
          = plainEvent Error_step ''Error generating presentation. Please try again.'' 0"
    by (simp add: ev E_def)
  show "\<forall>ev\<in>set (butlast (events (generatePresentation env sl forPreview fmt))).
            step ev \<noteq> Error_step \<and> step ev \<noteq> Complete"
    using shape unfolding bl by (auto simp: I_def F_def plainEvent_def creatingEvent_def)
  show "sorted (map percentage (butlast (events (generatePresentation env sl forPreview fmt))))"
  proof -
    from shape consider "events B = []"
      | m where "m \<le> length sl" "events B = I # map (\<lambda>i. creatingEvent i (length sl)) [0..<m]"
      | "events B = I # map (\<lambda>i. creatingEvent i (length sl)) [0..<length sl] @ [F]"
      by blast
    then show ?thesis
    proof cases
      case 1
      then show ?thesis by (simp add: bl)
    next
      case 2
      then show ?thesis
        using sorted_run [of m "length sl" "[]"]
        by (simp add: bl I_def plainEvent_def comp_def)
    next
      case 3
      then show ?thesis
        using sorted_run [of "length sl" "length sl" "[90]"]
        by (simp add: bl I_def F_def plainEvent_def comp_def)
    qed
  qed
next
  assume "\<not> inBrowser env"
  then show "events (generatePresentation env sl forPreview fmt) = []"
    and "outcome (generatePresentation env sl forPreview fmt)
          = Inl (Error ''Presentation generation is only available in the browser'')"
    by (simp_all add: generatePresentation_def)
next
  fix i
  show "step (creatingEvent i (length sl)) = Creating_slides"
    and "percentage (creatingEvent i (length sl)) = 30 + (of_nat i / of_nat (length sl)) * 50"
    and "currentSlide (creatingEvent i (length sl)) = Some (i + 1)"
    and "totalSlides (creatingEvent i (length sl)) = Some (length sl)"
    by (simp_all add: creatingEvent_def)
qed

theorem generatePresentation_progress_witness:
  "outcome (generatePresentation workingEnv teaSlides False Pptx) = Inr ''download-started''
   \<and> map step (events (generatePresentation workingEnv teaSlides False Pptx))
       = [Initializing, Creating_slides, Creating_slides, Creating_slides, Creating_slides,
          Finalizing, Complete]
   \<and> map percentage (events (generatePresentation workingEnv teaSlides False Pptx))
       = [10, 30, 85 / 2, 55, 135 / 2, 90, 100]
   \<and> inBrowser fullDiskEnv
   \<and> outcome (generatePresentation fullDiskEnv teaSlides False Pptx) = Inl (Error ''disk full'')
   \<and> last (events (generatePresentation fullDiskEnv teaSlides False Pptx))
       = plainEvent Error_step ''Error generating presentation. Please try again.'' 0"
proof -
  have len: "length teaSlides = 4" by (simp add: teaSlides_def)
  have upt4: "[0..<4] = [0, 1, 2, Suc 2]" by (simp add: upt_rec)
  from generatePresentation_progress [of workingEnv teaSlides False Pptx] working_outcome
  obtain msg where ev: "events (generatePresentation workingEnv teaSlides False Pptx)
               = plainEvent Initializing ''Initializing presentation...'' 10
                 # map (\<lambda>i. creatingEvent i (length teaSlides)) [0..<length teaSlides]
                 @ [plainEvent Finalizing ''Finalizing presentation...'' 90,
                    plainEvent Complete msg 100]"
    by blast
  have steps: "map step (events (generatePresentation workingEnv teaSlides False Pptx))
       = [Initializing, Creating_slides, Creating_slides, Creating_slides, Creating_slides,
          Finalizing, Complete]"
    by (simp add: ev len upt4 plainEvent_def creatingEvent_def)
  have pcts: "map percentage (events (generatePresentation workingEnv teaSlides False Pptx))
       = [10, 30, 85 / 2, 55, 135 / 2, 90, 100]"
    by (simp add: ev len upt4 plainEvent_def creatingEvent_def)
  have br: "inBrowser fullDiskEnv" by (simp add: fullDiskEnv_def workingEnv_def)
  with generatePresentation_progress [of fullDiskEnv teaSlides False Pptx] fullDisk_outcome
  have "last (events (generatePresentation fullDiskEnv teaSlides False Pptx))
       = plainEvent Error_step ''Error generating presentation. Please try again.'' 0"
    by blast
  with steps pcts br show ?thesis
    by (simp add: working_outcome fullDisk_outcome)
qed

theorem generatePresentation_server_counterexample:
  "outcome (generatePresentation serverEnv teaSlides False Pptx)
     = Inl (Error ''Presentation generation is only available in the browser'')
   \<and> events (generatePresentation serverEnv teaSlides False Pptx) = []"
  by (simp add: generatePresentation_def serverEnv_def workingEnv_def)

text \<open>
  Claim C2, as amended. An empty document is no error of its own. In a browser where the
  library loads and writes what it is asked, a run on no slides returns successfully,
  having emitted \<open>initializing\<close> at 10, \<open>finalizing\<close> at 90 and \<open>complete\<close> at 100 and
  no \<open>creating_slides\<close> event. Such a run fails only where \<open>window\<close> is undefined,
  where loading the library throws, or where the write that was asked for throws, and the
  error it fails with is the one thrown there.
\<close>

theorem generatePresentation_no_slides:
  "(inBrowser env \<and> importPptxGen env = None \<and> writeBlob env [] = Inr b
      \<and> (\<forall>name. writeFile env [] name = None) \<longrightarrow>
      outcome (generatePresentation env [] forPreview fmt)
        = Inr (if forPreview then createObjectURL env b else ''download-started'')
      \<and> map step (events (generatePresentation env [] forPreview fmt))
          = [Initializing, Finalizing, Complete]
      \<and> map percentage (events (generatePresentation env [] forPreview fmt)) = [10, 90, 100])
   \<and> (\<forall>e. outcome (generatePresentation env [] forPreview fmt) = Inl e \<longrightarrow>
          \<not> inBrowser env \<or> importPptxGen env = Some e \<or> writeBlob env [] = Inl e
          \<or> (\<exists>name. writeFile env [] name = Some e))"
proof (intro conjI allI impI)
  assume ok: "inBrowser env \<and> importPptxGen env = None \<and> writeBlob env [] = Inr b
      \<and> (\<forall>name. writeFile env [] name = None)"
  then have d: "deliver env [] forPreview fmt
                  = ([plainEvent Complete
                        (if forPreview then ''Presentation ready!''
                         else if fmt = Pdf then ''PDF download started!''
                         else ''PPTX download started!'') 100],
                     (if forPreview then []
                      else if fmt = Pdf
                        then [Downloaded b (''presentation-'' @ toString (dateNow env) @ ''.'' @ formatName fmt)]
                      else [Written (''presentation-'' @ toString (dateNow env) @ ''.'' @ formatName fmt)]),
                     Inr (if forPreview then createObjectURL env b else ''download-started''))"
    by (simp add: deliver_def Let_def)
  with ok have run: "generatePresentation env [] forPreview fmt
     = \<lparr>events = [plainEvent Initializing ''Initializing presentation...'' 10,
                  plainEvent Finalizing ''Finalizing presentation...'' 90,
                  plainEvent Complete
                        (if forPreview then ''Presentation ready!''
                         else if fmt = Pdf then ''PDF download started!''
                         else ''PPTX download started!'') 100],
        artifacts = (if forPreview then []
                      else if fmt = Pdf
                        then [Downloaded b (''presentation-'' @ toString (dateNow env) @ ''.'' @ formatName fmt)]
                      else [Written (''presentation-'' @ toString (dateNow env) @ ''.'' @ formatName fmt)]),
        outcome = Inr (if forPreview then createObjectURL env b else ''download-started'')\<rparr>"
    by (simp add: generatePresentation_def generatePresentationBody_def Let_def)
  show "outcome (generatePresentation env [] forPreview fmt)
        = Inr (if forPreview then createObjectURL env b else ''download-started'')"
    by (simp only: run export_run.simps)
  show "map step (events (generatePresentation env [] forPreview fmt))
          = [Initializing, Finalizing, Complete]"
    by (simp only: run export_run.simps) (simp add: plainEvent_def)
  show "map percentage (events (generatePresentation env [] forPreview fmt)) = [10, 90, 100]"
    by (simp only: run export_run.simps) (simp add: plainEvent_def)
next
  fix e
  assume bad: "outcome (generatePresentation env [] forPreview fmt) = Inl e"
  show "\<not> inBrowser env \<or> importPptxGen env = Some e \<or> writeBlob env [] = Inl e
          \<or> (\<exists>name. writeFile env [] name = Some e)"
  proof (cases "inBrowser env")
    case False
    then show ?thesis by simp
  next
    case True
    with bad have body: "outcome (generatePresentationBody env [] forPreview fmt) = Inl e"
      by (auto simp: generatePresentation_def Let_def split: sum.splits)
    show ?thesis
    proof (cases "importPptxGen env")
      case (Some e')
      with body show ?thesis by (simp add: generatePresentationBody_def)
    next
      case None
      with body have "snd (snd (deliver env [] forPreview fmt)) = Inl e"
        by (simp add: generatePresentationBody_def Let_def split: prod.splits)
      then show ?thesis
        by (auto simp: deliver_def Let_def split: if_splits sum.splits option.splits)
    qed
  qed
qed

theorem generatePresentation_no_slides_witness:
  "inBrowser workingEnv \<and> importPptxGen workingEnv = None \<and> writeBlob workingEnv [] = Inr ''PK''
   \<and> outcome (generatePresentation workingEnv [] False Pptx) = Inr ''download-started''
   \<and> map step (events (generatePresentation workingEnv [] False Pptx))
       = [Initializing, Finalizing, Complete]
   \<and> map percentage (events (generatePresentation workingEnv [] False Pptx)) = [10, 90, 100]
   \<and> outcome (generatePresentation fullDiskEnv [] False Pptx) = Inl (Error ''disk full'')
   \<and> writeFile fullDiskEnv [] ''presentation-42.pptx'' = Some (Error ''disk full'')"
proof -
  have pre: "inBrowser workingEnv \<and> importPptxGen workingEnv = None
      \<and> writeBlob workingEnv [] = Inr ''PK'' \<and> (\<forall>name. writeFile workingEnv [] name = None)"
    by (simp add: workingEnv_def)
  from generatePresentation_no_slides [of workingEnv "''PK''" False Pptx, THEN conjunct1, rule_format, OF pre]
  have "outcome (generatePresentation workingEnv [] False Pptx) = Inr ''download-started''"
    and "map step (events (generatePresentation workingEnv [] False Pptx))
       = [Initializing, Finalizing, Complete]"
    and "map percentage (events (generatePresentation workingEnv [] False Pptx)) = [10, 90, 100]"
    by simp_all
  moreover have "writeFile fullDiskEnv [] ''presentation-42.pptx'' = Some (Error ''disk full'')"
    by (simp add: fullDiskEnv_def workingEnv_def)
  ultimately show ?thesis
    using pre by (simp add: fullDisk_outcome)
qed

theorem generatePresentation_no_slides_counterexample:
  "outcome (generatePresentation workingEnv [] False Pptx) = Inr ''download-started''
   \<and> map step (events (generatePresentation workingEnv [] False Pptx))
       = [Initializing, Finalizing, Complete]
   \<and> artifacts (generatePresentation workingEnv [] False Pptx) = [Written ''presentation-42.pptx'']"
  by (simp add: generatePresentation_def generatePresentationBody_def deliver_def Let_def
        workingEnv_def plainEvent_def formatName_def toString.simps digitChar_def)

text \<open>
  Claim C4. In download mode with the format \<open>pdf\<close>, once the library is loaded and
  every slide drawn, if writing the blob throws and the library then writes the file
  \<open>presentation-<timestamp>.pptx\<close>, the run succeeds with \<open>'download-started'\<close>: the one
  artifact is that \<open>.pptx\<close> file, the last event is \<open>complete\<close> at 100 with the message
  that the PPTX was downloaded because PDF is not available, and no error event was
  emitted.
\<close>

theorem generatePresentation_pdf_fallback:
  assumes "inBrowser env" and "importPptxGen env = None"
    and "createSlides env (length sl) 0 sl = (evs, pptx, None)"
    and "writeBlob env pptx = Inl pdfError"
    and "writeFile env pptx (''presentation-'' @ toString (dateNow env) @ ''.pptx'') = None"
  shows "outcome (generatePresentation env sl False Pdf) = Inr ''download-started''
         \<and> artifacts (generatePresentation env sl False Pdf)
             = [Written (''presentation-'' @ toString (dateNow env) @ ''.pptx'')]
         \<and> last (events (generatePresentation env sl False Pdf))
             = plainEvent Complete ''PPTX downloaded (PDF not available)'' 100
         \<and> (\<forall>ev\<in>set (events (generatePresentation env sl False Pdf)). step ev \<noteq> Error_step)"
proof -
  have d: "deliver env pptx False Pdf
             = ([plainEvent Complete ''PPTX downloaded (PDF not available)'' 100],
                [Written (''presentation-'' @ toString (dateNow env) @ ''.pptx'')],
                Inr ''download-started'')"
    using assms(4,5) by (simp add: deliver_def Let_def)
  have run: "generatePresentation env sl False Pdf
     = \<lparr>events = [plainEvent Initializing ''Initializing presentation...'' 10] @ evs
                 @ [plainEvent Finalizing ''Finalizing presentation...'' 90]
                 @ [plainEvent Complete ''PPTX downloaded (PDF not available)'' 100],
        artifacts = [Written (''presentation-'' @ toString (dateNow env) @ ''.pptx'')],
        outcome = Inr ''download-started''\<rparr>"
    using assms(1,2,3) d
    by (simp add: generatePresentation_def generatePresentationBody_def Let_def)
  have "evs = map (\<lambda>i. creatingEvent (0 + i) (length sl)) [0..<length evs]"
    by (rule createSlides_events [OF assms(3), THEN conjunct2, THEN conjunct1])
  then obtain f :: "nat \<Rightarrow> nat" and js where "evs = map (\<lambda>i. creatingEvent (f i) (length sl)) js"
    by blast
  then have "\<forall>ev\<in>set evs. step ev = Creating_slides"
    by (auto simp: creatingEvent_def)
  then show ?thesis
    by (simp only: run export_run.simps) (auto simp: plainEvent_def)
qed

theorem generatePresentation_pdf_fallback_witness:
  "inBrowser noPdfEnv \<and> importPptxGen noPdfEnv = None
   \<and> snd (snd (createSlides noPdfEnv (length teaSlides) 0 teaSlides)) = None
   \<and> writeBlob noPdfEnv (fst (snd (createSlides noPdfEnv (length teaSlides) 0 teaSlides)))
       = Inl (Error ''PDF export is not available'')
   \<and> outcome (generatePresentation noPdfEnv teaSlides False Pdf) = Inr ''download-started''
   \<and> artifacts (generatePresentation noPdfEnv teaSlides False Pdf) = [Written ''presentation-42.pptx'']
   \<and> last (events (generatePresentation noPdfEnv teaSlides False Pdf))
       = plainEvent Complete ''PPTX downloaded (PDF not available)'' 100"
proof -
  obtain evs pptx stopped
    where loop: "createSlides noPdfEnv (length teaSlides) 0 teaSlides = (evs, pptx, stopped)"
    by (cases "createSlides noPdfEnv (length teaSlides) 0 teaSlides") auto
  have "snd (snd (createSlides noPdfEnv (length teaSlides) 0 teaSlides)) = None"
    by (rule createSlides_all_drawn) (simp_all add: noPdfEnv_def workingEnv_def)
  with loop have loop': "createSlides noPdfEnv (length teaSlides) 0 teaSlides = (evs, pptx, None)"
    by simp
  have name: "toString (dateNow noPdfEnv) = ''42''"
    by (simp add: noPdfEnv_def workingEnv_def toString.simps digitChar_def)
  have "outcome (generatePresentation noPdfEnv teaSlides False Pdf) = Inr ''download-started''
         \<and> artifacts (generatePresentation noPdfEnv teaSlides False Pdf)
             = [Written (''presentation-'' @ toString (dateNow noPdfEnv) @ ''.pptx'')]
         \<and> last (events (generatePresentation noPdfEnv teaSlides False Pdf))
             = plainEvent Complete ''PPTX downloaded (PDF not available)'' 100
         \<and> (\<forall>ev\<in>set (events (generatePresentation noPdfEnv teaSlides False Pdf)). step ev \<noteq> Error_step)"
    by (rule generatePresentation_pdf_fallback [OF _ _ loop'])
       (simp_all add: noPdfEnv_def workingEnv_def)
  then show ?thesis
    using loop' by (simp add: name) (simp add: noPdfEnv_def workingEnv_def)
qed

section \<open>Properties of the preview\<close>

text \<open>
  Claim C10. When the preview has a current slide, \<open>handleSave\<close> leaves editing mode and
  hands \<open>onSlidesUpdate\<close> a document of the same length in which every other slide is
  the one it was, and the current slide keeps its title and layout; its content is the
  lines of the edit that hold a code unit other than white space, in order, so no saved
  line is empty or blank. Without a current slide nothing is saved.
\<close>

theorem handleSave_replaces_current_content:
  "(0 \<le> currentSlideIndex p \<and> nat (currentSlideIndex p) < length (propSlides p) \<longrightarrow>
      (\<exists>updated.
         handleSave p = (p\<lparr>isEditing := False\<rparr>, Some updated)
         \<and> length updated = length (propSlides p)
         \<and> (\<forall>j<length (propSlides p).
               j \<noteq> nat (currentSlideIndex p) \<longrightarrow> updated ! j = propSlides p ! j)
         \<and> title (updated ! nat (currentSlideIndex p))
             = title (propSlides p ! nat (currentSlideIndex p))
         \<and> layout (updated ! nat (currentSlideIndex p))
             = layout (propSlides p ! nat (currentSlideIndex p))
         \<and> content (updated ! nat (currentSlideIndex p))
             = filter (\<lambda>line. \<exists>c\<in>set line. \<not> isWhiteSpace c)
                 (split CHR ''\<newline>'' (editContent p))
         \<and> (\<forall>line\<in>set (content (updated ! nat (currentSlideIndex p))).
               line \<noteq> [] \<and> (\<exists>c\<in>set line. \<not> isWhiteSpace c))))
   \<and> (\<not> (0 \<le> currentSlideIndex p \<and> nat (currentSlideIndex p) < length (propSlides p)) \<longrightarrow>
        handleSave p = (p, None))"
proof (intro conjI impI)
  assume inside: "0 \<le> currentSlideIndex p \<and> nat (currentSlideIndex p) < length (propSlides p)"
  define i where "i = nat (currentSlideIndex p)"
  define kept where
    "kept = filter (\<lambda>line. trim line \<noteq> []) (split CHR ''\<newline>'' (editContent p))"
  define updated where "updated = (propSlides p)[i := (propSlides p ! i)\<lparr>content := kept\<rparr>]"
  have i: "i < length (propSlides p)" using inside by (simp add: i_def)
  have saved: "handleSave p = (p\<lparr>isEditing := False\<rparr>, Some updated)"
    using inside by (simp add: handleSave_def Let_def updated_def kept_def i_def)
  have kept_eq: "kept = filter (\<lambda>line. \<exists>c\<in>set line. \<not> isWhiteSpace c)
                          (split CHR ''\<newline>'' (editContent p))"
    by (simp add: kept_def trim_eq_Nil)
  have at_i: "updated ! i = (propSlides p ! i)\<lparr>content := kept\<rparr>"
    using i by (simp add: updated_def)
  have others: "\<forall>j<length (propSlides p). j \<noteq> i \<longrightarrow> updated ! j = propSlides p ! j"
    by (simp add: updated_def)
  have visible: "\<forall>line\<in>set kept. line \<noteq> [] \<and> (\<exists>c\<in>set line. \<not> isWhiteSpace c)"
    by (auto simp: kept_eq)
  have "handleSave p = (p\<lparr>isEditing := False\<rparr>, Some updated)
         \<and> length updated = length (propSlides p)
         \<and> (\<forall>j<length (propSlides p). j \<noteq> i \<longrightarrow> updated ! j = propSlides p ! j)
         \<and> title (updated ! i) = title (propSlides p ! i)
         \<and> layout (updated ! i) = layout (propSlides p ! i)
         \<and> content (updated ! i)
             = filter (\<lambda>line. \<exists>c\<in>set line. \<not> isWhiteSpace c)
                 (split CHR ''\<newline>'' (editContent p))
         \<and> (\<forall>line\<in>set (content (updated ! i)).
               line \<noteq> [] \<and> (\<exists>c\<in>set line. \<not> isWhiteSpace c))"
    using saved others visible by (simp add: at_i kept_eq [symmetric]) (simp add: updated_def)
  then show "\<exists>updated.
         handleSave p = (p\<lparr>isEditing := False\<rparr>, Some updated)
         \<and> length updated = length (propSlides p)
         \<and> (\<forall>j<length (propSlides p).
               j \<noteq> nat (currentSlideIndex p) \<longrightarrow> updated ! j = propSlides p ! j)
         \<and> title (updated ! nat (currentSlideIndex p))
             = title (propSlides p ! nat (currentSlideIndex p))
         \<and> layout (updated ! nat (currentSlideIndex p))
             = layout (propSlides p ! nat (currentSlideIndex p))
         \<and> content (updated ! nat (currentSlideIndex p))
             = filter (\<lambda>line. \<exists>c\<in>set line. \<not> isWhiteSpace c)
                 (split CHR ''\<newline>'' (editContent p))
         \<and> (\<forall>line\<in>set (content (updated ! nat (currentSlideIndex p))).
               line \<noteq> [] \<and> (\<exists>c\<in>set line. \<not> isWhiteSpace c))"
    unfolding i_def by (rule exI)
next
  assume "\<not> (0 \<le> currentSlideIndex p \<and> nat (currentSlideIndex p) < length (propSlides p))"
  then show "handleSave p = (p, None)"
    by (auto simp: handleSave_def)
qed

theorem handleSave_replaces_current_content_witness:
  "0 \<le> currentSlideIndex editing
   \<and> nat (currentSlideIndex editing) < length (propSlides editing)
   \<and> handleSave editing
       = (editing\<lparr>isEditing := False\<rparr>,
          Some [\<lparr>title = ''Tea'', content = [''A short history'', ''not drawn''], layout = ''TITLE''\<rparr>,
                \<lparr>title = ''Origins'', content = [''China'', ''Silk road''], layout = ''TITLE_CONTENT''\<rparr>,
                \<lparr>title = ''Today'', content = [''Markets''], layout = ''SECTION_HEADER''\<rparr>,
                \<lparr>title = ''Thanks'', content = [''Questions''], layout = ''CLOSING''\<rparr>])"
proof -
  have inside: "0 \<le> currentSlideIndex editing \<and> nat (currentSlideIndex editing) < length (propSlides editing)"
    by (simp add: editing_def teaSlides_def)
  with handleSave_replaces_current_content [of editing]
  obtain updated where saved: "handleSave editing = (editing\<lparr>isEditing := False\<rparr>, Some updated)"
    and len: "length updated = length (propSlides editing)"
    and others: "\<forall>j<length (propSlides editing). j \<noteq> nat (currentSlideIndex editing) \<longrightarrow> updated ! j = propSlides editing ! j"
    and t: "title (updated ! nat (currentSlideIndex editing)) = title (propSlides editing ! nat (currentSlideIndex editing))"
    and l: "layout (updated ! nat (currentSlideIndex editing)) = layout (propSlides editing ! nat (currentSlideIndex editing))"
    and c: "content (updated ! nat (currentSlideIndex editing))
             = filter (\<lambda>line. \<exists>c\<in>set line. \<not> isWhiteSpace c) (split CHR ''\<newline>'' (editContent editing))"
    by blast
  have "updated = [\<lparr>title = ''Tea'', content = [''A short history'', ''not drawn''], layout = ''TITLE''\<rparr>,
                \<lparr>title = ''Origins'', content = [''China'', ''Silk road''], layout = ''TITLE_CONTENT''\<rparr>,
                \<lparr>title = ''Today'', content = [''Markets''], layout = ''SECTION_HEADER''\<rparr>,
                \<lparr>title = ''Thanks'', content = [''Questions''], layout = ''CLOSING''\<rparr>]"
  proof (rule nth_equalityI)
    show "length updated = length [\<lparr>title = ''Tea'', content = [''A short history'', ''not drawn''], layout = ''TITLE''\<rparr>,
                \<lparr>title = ''Origins'', content = [''China'', ''Silk road''], layout = ''TITLE_CONTENT''\<rparr>,
                \<lparr>title = ''Today'', content = [''Markets''], layout = ''SECTION_HEADER''\<rparr>,
                \<lparr>title = ''Thanks'', content = [''Questions''], layout = ''CLOSING''\<rparr>]"
      using len by (simp add: editing_def teaSlides_def)
  next
    fix j assume "j < length updated"
    then have "j = 0 \<or> j = 1 \<or> j = 2 \<or> j = 3"
      using len by (auto simp: editing_def teaSlides_def)
    moreover have "updated ! 0 = teaSlides ! 0" "updated ! 2 = teaSlides ! 2" "updated ! 3 = teaSlides ! 3"
      using others by (simp_all add: editing_def teaSlides_def)
    moreover have "updated ! 1 = \<lparr>title = ''Origins'', content = [''China'', ''Silk road''], layout = ''TITLE_CONTENT''\<rparr>"
      using t l c by (cases "updated ! 1") (simp add: editing_def teaSlides_def isWhiteSpace_def)
    ultimately show "updated ! j = [\<lparr>title = ''Tea'', content = [''A short history'', ''not drawn''], layout = ''TITLE''\<rparr>,
                \<lparr>title = ''Origins'', content = [''China'', ''Silk road''], layout = ''TITLE_CONTENT''\<rparr>,
                \<lparr>title = ''Today'', content = [''Markets''], layout = ''SECTION_HEADER''\<rparr>,
                \<lparr>title = ''Thanks'', content = [''Questions''], layout = ''CLOSING''\<rparr>] ! j"
      by (auto simp: teaSlides_def)
  qed
  with saved inside show ?thesis by simp
qed

end
